theory Spec2Isabelle
  imports Complex_Main "HOL-Library.Signed_Division"
begin

section \<open>Data model\<close>

text \<open>
  The arena keeps four tables (\<^verbatim>\<open>agents\<close>, \<^verbatim>\<open>challenges\<close>, \<^verbatim>\<open>matches\<close>,
  \<^verbatim>\<open>transactions\<close>) in PostgreSQL and changes them through PL/pgSQL functions that the
  Deno edge functions call. A table with a primary key \<^verbatim>\<open>id\<close> is a list of pairs of the key
  and the row, in insertion order; \<^verbatim>\<open>transactions\<close>, which is only ever appended to, is a
  list of rows. \<^verbatim>\<open>INTEGER\<close> columns are integers together with the range check of a
  32-bit column (PostgreSQL raises on overflow, it does not wrap), \<^verbatim>\<open>TIMESTAMPTZ\<close> is a
  count of microseconds, and a nullable column is an \<open>option\<close>.
\<close>

type_synonym uuid = string
type_synonym timestamptz = int

text \<open>A JSON value, for the \<^verbatim>\<open>JSONB\<close> columns and for the \<^verbatim>\<open>unknown\<close> values of the
  TypeScript code. JavaScript numbers are taken as real numbers: the model is exact
  wherever the double-precision arithmetic of the source is.\<close>

datatype json =
    JNull
  | JBool bool
  | JNum real
  | JStr string
  | JArr "json list"
  | JObj "(string \<times> json) list"

type_synonym jstate = "(string \<times> json) list"

text \<open>\<^verbatim>\<open>export type Strategy\<close> of \<^verbatim>\<open>_shared/auth.ts\<close>; a move is the string the source uses.\<close>

datatype strategy =
    Random
  | Always string
  | Cycle "string list"
  | Weighted real real real
  | Counter_last_loss

definition VALID_MOVES :: "string list" where
  "VALID_MOVES = [''rock'', ''paper'', ''scissors'']"

datatype challenge_status = Open | Matched | Cancelled

datatype match_status = Pending | Waiting_reveals | Complete

datatype match_phase = Strategy | Finished

record agents_row =
  balance :: int
  wins :: int
  losses :: int
  draws :: int
  strategy :: strategy
  strategy_state :: jstate

record challenges_row =
  challenger_id :: uuid
  c_wager_amount :: int
  c_status :: challenge_status

record matches_row =
  challenge_id :: uuid
  agent1_id :: uuid
  agent2_id :: uuid
  wager_amount :: int
  status :: match_status
  phase :: match_phase
  strategy_deadline :: "timestamptz option"
  commit_deadline :: timestamptz
  agent1_move_hash :: "string option"
  agent2_move_hash :: "string option"
  reveal_deadline :: "timestamptz option"
  agent1_move :: "string option"
  agent1_salt :: "string option"
  agent2_move :: "string option"
  agent2_salt :: "string option"
  agent1_used_fallback :: bool
  agent2_used_fallback :: bool
  agent1_strategy :: strategy
  agent2_strategy :: strategy
  winner_id :: "uuid option"
  completed_at :: "timestamptz option"

record transactions_row =
  match_id :: "uuid option"
  from_agent_id :: "uuid option"
  to_agent_id :: uuid
  amount :: int
  tx_note :: string

record db =
  agents :: "(uuid \<times> agents_row) list"
  challenges :: "(uuid \<times> challenges_row) list"
  matches :: "(uuid \<times> matches_row) list"
  transactions :: "transactions_row list"

text \<open>Every \<^verbatim>\<open>RAISE EXCEPTION\<close> of the SQL functions, the integrity errors PostgreSQL
  raises by itself, and the one \<^verbatim>\<open>throw\<close> of the reaper.\<close>

datatype error =
    Challenge_not_open uuid
  | Own_challenge
  | Insufficient_balance int int
  | Match_not_pending uuid
  | Strategy_period_active timestamptz
  | Commit_deadline_passed uuid
  | Not_a_participant uuid uuid
  | Already_committed nat uuid
  | Match_not_waiting_reveals uuid
  | Reveal_deadline_passed uuid
  | Invalid_move string
  | Already_revealed nat uuid
  | Hash_mismatch nat uuid
  | Match_already_complete uuid
  | Invalid_agent_move nat string
  | Integer_out_of_range
  | Check_violation string
  | Foreign_key_violation string
  | Not_null_violation string
  | Unique_violation string
  | Invalid_integer_syntax
  | Invalid_wager
  | Escrow_refused int
  | Agents_not_found uuid

section \<open>SQL building blocks\<close>

definition bind_result :: "error + 'a \<Rightarrow> ('a \<Rightarrow> error + 'b) \<Rightarrow> error + 'b" where
  "bind_result m f = (case m of Inl e \<Rightarrow> Inl e | Inr x \<Rightarrow> f x)"

text \<open>A remote procedure call runs the function in one transaction: an exception rolls
  every change back, so the caller sees the error and the database it started from.\<close>

definition rpc :: "(db \<Rightarrow> error + ('a \<times> db)) \<Rightarrow> db \<Rightarrow> (error + 'a) \<times> db" where
  "rpc f st = (case f st of Inl e \<Rightarrow> (Inl e, st) | Inr (x, st') \<Rightarrow> (Inr x, st'))"

definition int4 :: "int \<Rightarrow> bool" where
  "int4 x \<longleftrightarrow> - 2147483648 \<le> x \<and> x \<le> 2147483647"

definition seconds :: "int \<Rightarrow> int" where
  "seconds n = n * 1000000"

definition modify_where :: "('k \<Rightarrow> bool) \<Rightarrow> ('r \<Rightarrow> 'r) \<Rightarrow> ('k \<times> 'r) list \<Rightarrow> ('k \<times> 'r) list" where
  "modify_where P f rows = map (\<lambda>(k, r). if P k then (k, f r) else (k, r)) rows"

text \<open>The constraints of an \<^verbatim>\<open>agents\<close> row that an update can break: the four
  \<^verbatim>\<open>INTEGER\<close> columns and \<^verbatim>\<open>CHECK (balance >= 0)\<close>.\<close>

definition agents_row_error :: "agents_row \<Rightarrow> error option" where
  "agents_row_error a =
     (if \<not> (int4 (balance a) \<and> int4 (wins a) \<and> int4 (losses a) \<and> int4 (draws a))
      then Some Integer_out_of_range
      else if balance a < 0 then Some (Check_violation ''balance_non_negative'')
      else None)"

fun first_error :: "('r \<Rightarrow> error option) \<Rightarrow> 'r list \<Rightarrow> error option" where
  "first_error chk [] = None"
| "first_error chk (r # rs) = (case chk r of Some e \<Rightarrow> Some e | None \<Rightarrow> first_error chk rs)"

text \<open>\<^verbatim>\<open>UPDATE agents SET ... WHERE id ...\<close>: the rows selected get the new values, each
  new row is checked, and a row that is not there is no error.\<close>

definition update_agents :: "(uuid \<Rightarrow> bool) \<Rightarrow> (agents_row \<Rightarrow> agents_row) \<Rightarrow> db \<Rightarrow> error + db" where
  "update_agents P f st =
     (case first_error agents_row_error (map (f \<circ> snd) (filter (P \<circ> fst) (agents st))) of
        Some e \<Rightarrow> Inl e
      | None \<Rightarrow> Inr (st\<lparr>agents := modify_where P f (agents st)\<rparr>))"

text \<open>Migration 003: the trigger \<^verbatim>\<open>trg_sync_match_phase\<close> runs before every update of a
  \<^verbatim>\<open>matches\<close> row.\<close>

definition sync_match_phase :: "matches_row \<Rightarrow> matches_row" where
  "sync_match_phase NEW = (if status NEW = Complete then NEW\<lparr>phase := Finished\<rparr> else NEW)"

definition update_matches :: "uuid \<Rightarrow> (matches_row \<Rightarrow> matches_row) \<Rightarrow> db \<Rightarrow> db" where
  "update_matches mid f st =
     st\<lparr>matches := modify_where (\<lambda>k. k = mid) (sync_match_phase \<circ> f) (matches st)\<rparr>"

text \<open>\<^verbatim>\<open>INSERT INTO transactions\<close>: \<^verbatim>\<open>CHECK (amount > 0)\<close> and the three foreign keys.\<close>

definition insert_transaction :: "transactions_row \<Rightarrow> db \<Rightarrow> error + db" where
  "insert_transaction t st =
     (if \<not> int4 (amount t) then Inl Integer_out_of_range
      else if amount t \<le> 0 then Inl (Check_violation ''amount_positive'')
      else if map_of (agents st) (to_agent_id t) = None
        then Inl (Foreign_key_violation ''to_agent_id'')
      else if (case from_agent_id t of None \<Rightarrow> False | Some a \<Rightarrow> map_of (agents st) a = None)
        then Inl (Foreign_key_violation ''from_agent_id'')
      else if (case match_id t of None \<Rightarrow> False | Some m \<Rightarrow> map_of (matches st) m = None)
        then Inl (Foreign_key_violation ''match_id'')
      else Inr (st\<lparr>transactions := transactions st @ [t]\<rparr>))"

definition balance_of :: "db \<Rightarrow> uuid \<Rightarrow> int" where
  "balance_of st a = (case map_of (agents st) a of None \<Rightarrow> 0 | Some r \<Rightarrow> balance r)"

section \<open>The escrow ledger\<close>

text \<open>\<^verbatim>\<open>escrow_wager\<close>: with no row for the agent \<^verbatim>\<open>v_balance\<close> is null, the comparison is
  not true, the update touches nothing and the function still returns true.\<close>

definition escrow_wager :: "uuid \<Rightarrow> int \<Rightarrow> db \<Rightarrow> error + (bool \<times> db)" where
  "escrow_wager p_agent_id p_amount st =
     (if (case map_of (agents st) p_agent_id of None \<Rightarrow> False | Some a \<Rightarrow> balance a < p_amount)
      then Inr (False, st)
      else bind_result
             (update_agents (\<lambda>k. k = p_agent_id) (\<lambda>a. a\<lparr>balance := balance a - p_amount\<rparr>) st)
             (\<lambda>st1. Inr (True, st1)))"

definition refund_wager :: "uuid \<Rightarrow> int \<Rightarrow> db \<Rightarrow> error + (unit \<times> db)" where
  "refund_wager p_agent_id p_amount st =
     bind_result
       (update_agents (\<lambda>k. k = p_agent_id) (\<lambda>a. a\<lparr>balance := balance a + p_amount\<rparr>) st)
       (\<lambda>st1. Inr ((), st1))"

definition em_dash :: string where
  "em_dash = [CHR 0xE2, CHR 0x80, CHR 0x94]"

definition challenge_status_text :: "challenge_status \<Rightarrow> string" where
  "challenge_status_text s =
     (case s of Open \<Rightarrow> ''open'' | Matched \<Rightarrow> ''matched'' | Cancelled \<Rightarrow> ''cancelled'')"

text \<open>Migration 006, \<^verbatim>\<open>cancel_challenge\<close>: a refusal is a result row with
  \<^verbatim>\<open>success = false\<close>, not an exception.\<close>

definition cancel_challenge :: "uuid \<Rightarrow> uuid \<Rightarrow> db \<Rightarrow> error + ((bool \<times> int \<times> string) \<times> db)" where
  "cancel_challenge p_challenge_id p_agent_id st =
     (case map_of (challenges st) p_challenge_id of
        None \<Rightarrow> Inr ((False, 0, ''Challenge not found''), st)
      | Some v_challenge \<Rightarrow>
          if challenger_id v_challenge \<noteq> p_agent_id
            then Inr ((False, 0, ''Not your challenge''), st)
          else if c_status v_challenge \<noteq> Open
            then Inr ((False, 0,
                   ''Cannot cancel a challenge with status '' @ [CHR 0x27]
                     @ challenge_status_text (c_status v_challenge) @ [CHR 0x27]), st)
          else
            let st1 = st\<lparr>challenges :=
                         modify_where (\<lambda>k. k = p_challenge_id) (\<lambda>c. c\<lparr>c_status := Cancelled\<rparr>)
                           (challenges st)\<rparr>
            in bind_result
                 (update_agents (\<lambda>k. k = p_agent_id)
                    (\<lambda>a. a\<lparr>balance := balance a + c_wager_amount v_challenge\<rparr>) st1)
                 (\<lambda>st2. bind_result
                    (insert_transaction
                       \<lparr>match_id = None, from_agent_id = None, to_agent_id = p_agent_id,
                        amount = c_wager_amount v_challenge,
                        tx_note = ''challenge cancelled '' @ em_dash @ '' wager returned''\<rparr> st2)
                    (\<lambda>st3. Inr ((True, c_wager_amount v_challenge, ''Challenge cancelled.''), st3))))"

section \<open>The match state machine\<close>

text \<open>\<^verbatim>\<open>create_match\<close> as migration 003 leaves it. \<^verbatim>\<open>now\<close> is \<^verbatim>\<open>now()\<close> and \<^verbatim>\<open>new_id\<close> the
  key \<^verbatim>\<open>gen_random_uuid()\<close> draws. A missing agent row gives null fields: the balance test
  is then not true, the update touches nothing, and the insert fails on the strategy
  snapshot, which is \<^verbatim>\<open>NOT NULL\<close>.\<close>

definition create_match ::
  "timestamptz \<Rightarrow> uuid \<Rightarrow> uuid \<Rightarrow> uuid \<Rightarrow> int \<Rightarrow> int \<Rightarrow> db \<Rightarrow> error + (matches_row \<times> db)" where
  "create_match now new_id p_challenge_id p_accepter_id p_strategy_seconds p_commit_seconds st =
     (case map_of (challenges st) p_challenge_id of
        None \<Rightarrow> Inl (Challenge_not_open p_challenge_id)
      | Some v_challenge \<Rightarrow>
          if c_status v_challenge \<noteq> Open then Inl (Challenge_not_open p_challenge_id)
          else if challenger_id v_challenge = p_accepter_id then Inl Own_challenge
          else
            let v_challenger = map_of (agents st) (challenger_id v_challenge);
                v_accepter = map_of (agents st) p_accepter_id
            in
              if (case v_accepter of None \<Rightarrow> False
                  | Some a \<Rightarrow> balance a < c_wager_amount v_challenge)
                then Inl (Insufficient_balance
                            (case v_accepter of None \<Rightarrow> 0 | Some a \<Rightarrow> balance a)
                            (c_wager_amount v_challenge))
              else
                   bind_result
                     (update_agents (\<lambda>k. k = p_accepter_id)
                        (\<lambda>a. a\<lparr>balance := balance a - c_wager_amount v_challenge\<rparr>) st)
                     (\<lambda>st1.
                        let v_strategy_dl = now + seconds p_strategy_seconds in
                        (case v_challenger of
                           None \<Rightarrow> Inl (Not_null_violation ''agent1_strategy'')
                         | Some c \<Rightarrow>
                             (case v_accepter of
                                None \<Rightarrow> Inl (Not_null_violation ''agent2_strategy'')
                              | Some a \<Rightarrow>
                                  if map_of (matches st1) new_id \<noteq> None
                                    then Inl (Unique_violation ''matches_pkey'')
                                  else
                                    let v_match =
                                          \<lparr>challenge_id = p_challenge_id,
                                           agent1_id = challenger_id v_challenge,
                                           agent2_id = p_accepter_id,
                                           wager_amount = c_wager_amount v_challenge,
                                           status = Pending,
                                           phase = Strategy,
                                           strategy_deadline = Some v_strategy_dl,
                                           commit_deadline = v_strategy_dl + seconds p_commit_seconds,
                                           agent1_move_hash = None,
                                           agent2_move_hash = None,
                                           reveal_deadline = None,
                                           agent1_move = None,
                                           agent1_salt = None,
                                           agent2_move = None,
                                           agent2_salt = None,
                                           agent1_used_fallback = False,
                                           agent2_used_fallback = False,
                                           agent1_strategy = strategy c,
                                           agent2_strategy = strategy a,
                                           winner_id = None,
                                           completed_at = None\<rparr>;
                                        st2 = st1\<lparr>matches := matches st1 @ [(new_id, v_match)]\<rparr>;
                                        st3 = st2\<lparr>challenges :=
                                                modify_where (\<lambda>k. k = p_challenge_id)
                                                  (\<lambda>c. c\<lparr>c_status := Matched\<rparr>) (challenges st2)\<rparr>
                                    in Inr (v_match, st3)))))"

text \<open>The row a function returns after its last \<^verbatim>\<open>SELECT * INTO v_match\<close>. The row was
  found when the function started and nothing deletes rows, so the first case is there
  only to keep the model total.\<close>

definition return_match :: "uuid \<Rightarrow> db \<Rightarrow> error + (matches_row \<times> db)" where
  "return_match mid st =
     (case map_of (matches st) mid of
        None \<Rightarrow> Inl (Not_null_violation ''matches'')
      | Some row \<Rightarrow> Inr (row, st))"

text \<open>\<^verbatim>\<open>submit_commit\<close> as migration 001 leaves it.\<close>

definition submit_commit ::
  "timestamptz \<Rightarrow> uuid \<Rightarrow> uuid \<Rightarrow> string \<Rightarrow> int \<Rightarrow> db \<Rightarrow> error + (matches_row \<times> db)" where
  "submit_commit now p_match_id p_agent_id p_move_hash p_reveal_seconds st =
     (case map_of (matches st) p_match_id of
        None \<Rightarrow> Inl (Match_not_pending p_match_id)
      | Some v_match \<Rightarrow>
          if status v_match \<noteq> Pending then Inl (Match_not_pending p_match_id)
          else if (case strategy_deadline v_match of None \<Rightarrow> False | Some d \<Rightarrow> now < d)
            then Inl (Strategy_period_active (case strategy_deadline v_match of None \<Rightarrow> 0 | Some d \<Rightarrow> d))
          else if now > commit_deadline v_match then Inl (Commit_deadline_passed p_match_id)
          else if p_agent_id \<noteq> agent1_id v_match \<and> p_agent_id \<noteq> agent2_id v_match
            then Inl (Not_a_participant p_agent_id p_match_id)
          else if p_agent_id = agent1_id v_match \<and> agent1_move_hash v_match \<noteq> None
            then Inl (Already_committed 1 p_match_id)
          else if p_agent_id \<noteq> agent1_id v_match \<and> agent2_move_hash v_match \<noteq> None
            then Inl (Already_committed 2 p_match_id)
          else
            let st1 = (if p_agent_id = agent1_id v_match
                       then update_matches p_match_id (\<lambda>m. m\<lparr>agent1_move_hash := Some p_move_hash\<rparr>) st
                       else update_matches p_match_id (\<lambda>m. m\<lparr>agent2_move_hash := Some p_move_hash\<rparr>) st);
                st2 = (case map_of (matches st1) p_match_id of
                         None \<Rightarrow> st1
                       | Some m \<Rightarrow>
                           if agent1_move_hash m \<noteq> None \<and> agent2_move_hash m \<noteq> None
                           then update_matches p_match_id
                                  (\<lambda>m. m\<lparr>status := Waiting_reveals,
                                          reveal_deadline := Some (now + seconds p_reveal_seconds)\<rparr>) st1
                           else st1)
            in return_match p_match_id st2)"

text \<open>\<^verbatim>\<open>submit_reveal\<close>. \<open>H\<close> is \<^verbatim>\<open>encode(extensions.digest(..., 'sha256'), 'hex')\<close>, the
  SHA-256 digest in lower-case hexadecimal, which is not part of the repository. The edge
  function passes a move and a salt that are strings. A comparison with a null
  deadline or a null stored hash is not true, so it does not raise.\<close>

definition submit_reveal ::
  "(string \<Rightarrow> string) \<Rightarrow> timestamptz \<Rightarrow> uuid \<Rightarrow> uuid \<Rightarrow> string \<Rightarrow> string \<Rightarrow> db
     \<Rightarrow> error + (matches_row \<times> db)" where
  "submit_reveal H now p_match_id p_agent_id p_move p_salt st =
     (case map_of (matches st) p_match_id of
        None \<Rightarrow> Inl (Match_not_waiting_reveals p_match_id)
      | Some v_match \<Rightarrow>
          if status v_match \<noteq> Waiting_reveals then Inl (Match_not_waiting_reveals p_match_id)
          else if (case reveal_deadline v_match of None \<Rightarrow> False | Some d \<Rightarrow> now > d)
            then Inl (Reveal_deadline_passed p_match_id)
          else if p_agent_id \<noteq> agent1_id v_match \<and> p_agent_id \<noteq> agent2_id v_match
            then Inl (Not_a_participant p_agent_id p_match_id)
          else if p_move \<notin> set VALID_MOVES then Inl (Invalid_move p_move)
          else
            let v_expected_hash = H (p_move @ p_salt) in
            if p_agent_id = agent1_id v_match then
              if agent1_move v_match \<noteq> None then Inl (Already_revealed 1 p_match_id)
              else if (case agent1_move_hash v_match of None \<Rightarrow> False
                       | Some v_stored_hash \<Rightarrow> v_expected_hash \<noteq> v_stored_hash)
                then Inl (Hash_mismatch 1 p_match_id)
              else return_match p_match_id
                     (update_matches p_match_id
                        (\<lambda>m. m\<lparr>agent1_move := Some p_move, agent1_salt := Some p_salt\<rparr>) st)
            else
              if agent2_move v_match \<noteq> None then Inl (Already_revealed 2 p_match_id)
              else if (case agent2_move_hash v_match of None \<Rightarrow> False
                       | Some v_stored_hash \<Rightarrow> v_expected_hash \<noteq> v_stored_hash)
                then Inl (Hash_mismatch 2 p_match_id)
              else return_match p_match_id
                     (update_matches p_match_id
                        (\<lambda>m. m\<lparr>agent2_move := Some p_move, agent2_salt := Some p_salt\<rparr>) st))"

text \<open>\<^verbatim>\<open>resolve_match\<close>. The two moves are nullable: for a null move \<^verbatim>\<open>NOT IN\<close> and \<^verbatim>\<open>=\<close> are
  not true, so the function neither raises nor sees a draw, and the last branch of the
  winner test makes agent2 the winner.\<close>

definition move_not_in_valid :: "string option \<Rightarrow> bool" where
  "move_not_in_valid m = (case m of None \<Rightarrow> False | Some s \<Rightarrow> s \<notin> set VALID_MOVES)"

definition agent1_beats :: "string option \<Rightarrow> string option \<Rightarrow> bool" where
  "agent1_beats m1 m2 \<longleftrightarrow>
     (m1 = Some ''rock'' \<and> m2 = Some ''scissors'') \<or>
     (m1 = Some ''paper'' \<and> m2 = Some ''rock'') \<or>
     (m1 = Some ''scissors'' \<and> m2 = Some ''paper'')"

definition settle_draw :: "uuid \<Rightarrow> matches_row \<Rightarrow> db \<Rightarrow> error + db" where
  "settle_draw p_match_id v_match st =
     bind_result
       (update_agents (\<lambda>k. k = agent1_id v_match \<or> k = agent2_id v_match)
          (\<lambda>a. a\<lparr>balance := balance a + wager_amount v_match\<rparr>) st)
       (\<lambda>st1. bind_result
          (insert_transaction
             \<lparr>match_id = Some p_match_id, from_agent_id = None, to_agent_id = agent1_id v_match,
              amount = wager_amount v_match, tx_note = ''draw '' @ em_dash @ '' wager returned''\<rparr> st1)
          (\<lambda>st2. bind_result
             (insert_transaction
                \<lparr>match_id = Some p_match_id, from_agent_id = None, to_agent_id = agent2_id v_match,
                 amount = wager_amount v_match, tx_note = ''draw '' @ em_dash @ '' wager returned''\<rparr> st2)
             (\<lambda>st3. update_agents (\<lambda>k. k = agent1_id v_match \<or> k = agent2_id v_match)
                       (\<lambda>a. a\<lparr>draws := draws a + 1\<rparr>) st3)))"

definition settle_win :: "uuid \<Rightarrow> matches_row \<Rightarrow> uuid \<Rightarrow> uuid \<Rightarrow> db \<Rightarrow> error + db" where
  "settle_win p_match_id v_match v_winner_id v_loser_id st =
     (if \<not> int4 (wager_amount v_match * 2) then Inl Integer_out_of_range
      else bind_result
        (update_agents (\<lambda>k. k = v_winner_id)
           (\<lambda>a. a\<lparr>balance := balance a + wager_amount v_match * 2\<rparr>) st)
        (\<lambda>st1. bind_result
           (insert_transaction
              \<lparr>match_id = Some p_match_id, from_agent_id = Some v_loser_id,
               to_agent_id = v_winner_id, amount = wager_amount v_match * 2,
               tx_note = ''match winnings''\<rparr> st1)
           (\<lambda>st2. bind_result
              (update_agents (\<lambda>k. k = v_winner_id) (\<lambda>a. a\<lparr>wins := wins a + 1\<rparr>) st2)
              (\<lambda>st3. update_agents (\<lambda>k. k = v_loser_id) (\<lambda>a. a\<lparr>losses := losses a + 1\<rparr>) st3))))"

definition resolve_match ::
  "timestamptz \<Rightarrow> uuid \<Rightarrow> string option \<Rightarrow> string option \<Rightarrow> bool \<Rightarrow> bool \<Rightarrow> jstate \<Rightarrow> jstate \<Rightarrow> db
     \<Rightarrow> error + (matches_row \<times> db)" where
  "resolve_match now p_match_id p_agent1_move p_agent2_move p_agent1_fallback p_agent2_fallback
       p_agent1_new_state p_agent2_new_state st =
     (case map_of (matches st) p_match_id of
        None \<Rightarrow> Inl (Match_already_complete p_match_id)
      | Some v_match \<Rightarrow>
          if status v_match = Complete then Inl (Match_already_complete p_match_id)
          else if move_not_in_valid p_agent1_move
            then Inl (Invalid_agent_move 1 (case p_agent1_move of None \<Rightarrow> [] | Some s \<Rightarrow> s))
          else if move_not_in_valid p_agent2_move
            then Inl (Invalid_agent_move 2 (case p_agent2_move of None \<Rightarrow> [] | Some s \<Rightarrow> s))
          else
            let st1 = update_matches p_match_id
                        (\<lambda>m. m\<lparr>agent1_move := p_agent1_move,
                                agent2_move := p_agent2_move,
                                agent1_used_fallback := p_agent1_fallback,
                                agent2_used_fallback := p_agent2_fallback\<rparr>) st;
                v_is_draw = (p_agent1_move \<noteq> None \<and> p_agent1_move = p_agent2_move);
                agent1_won = agent1_beats p_agent1_move p_agent2_move;
                v_winner_id = (if v_is_draw then None
                               else if agent1_won then Some (agent1_id v_match)
                               else Some (agent2_id v_match))
            in bind_result
                 (if v_is_draw then settle_draw p_match_id v_match st1
                  else if agent1_won
                    then settle_win p_match_id v_match (agent1_id v_match) (agent2_id v_match) st1
                  else settle_win p_match_id v_match (agent2_id v_match) (agent1_id v_match) st1)
                 (\<lambda>st2.
                    let st3 = update_matches p_match_id
                                (\<lambda>m. m\<lparr>status := Complete,
                                        winner_id := v_winner_id,
                                        completed_at := Some now\<rparr>) st2
                    in bind_result
                         (update_agents (\<lambda>k. k = agent1_id v_match)
                            (\<lambda>a. a\<lparr>strategy_state := p_agent1_new_state\<rparr>) st3)
                         (\<lambda>st4. bind_result
                            (update_agents (\<lambda>k. k = agent2_id v_match)
                               (\<lambda>a. a\<lparr>strategy_state := p_agent2_new_state\<rparr>) st4)
                            (\<lambda>st5. return_match p_match_id st5))))"

section \<open>The move commitment codec\<close>

text \<open>\<^verbatim>\<open>createCommit\<close> of the MCP server's store: the salt is the hexadecimal text of 16
  random bytes, which are an argument here, and the hash is the digest of the move
  followed by the salt.\<close>

definition hex_digit :: "nat \<Rightarrow> char" where
  "hex_digit n = ''0123456789abcdef'' ! (n mod 16)"

definition to_hex :: "nat list \<Rightarrow> string" where
  "to_hex bytes = concat (map (\<lambda>b. [hex_digit (b div 16), hex_digit b]) bytes)"

definition commit_hash :: "(string \<Rightarrow> string) \<Rightarrow> string \<Rightarrow> string \<Rightarrow> string" where
  "commit_hash H move salt = H (move @ salt)"

definition createCommit :: "(string \<Rightarrow> string) \<Rightarrow> nat list \<Rightarrow> string \<Rightarrow> string \<times> string" where
  "createCommit H randomBytes move =
     (let salt = to_hex randomBytes;
          hash = commit_hash H move salt
      in (hash, salt))"

section \<open>The strategy executor\<close>

text \<open>Reading \<^verbatim>\<open>xs[r]\<close> in JavaScript gives \<^verbatim>\<open>undefined\<close> (\<open>None\<close>) unless \<open>r\<close> is a whole
  number from 0 up to the length.\<close>

definition js_index :: "'a list \<Rightarrow> real \<Rightarrow> 'a option" where
  "js_index xs r =
     (if 0 \<le> r \<and> r < real (length xs) \<and> real_of_int \<lfloor>r\<rfloor> = r then Some (xs ! nat \<lfloor>r\<rfloor>) else None)"

text \<open>The remainder \<^verbatim>\<open>x % n\<close> of JavaScript truncates the quotient towards zero, so it has
  the sign of \<open>x\<close>; for \<open>n = 0\<close> it is \<^verbatim>\<open>NaN\<close> (\<open>None\<close>).\<close>

definition js_rem :: "real \<Rightarrow> nat \<Rightarrow> real option" where
  "js_rem x n =
     (if n = 0 then None
      else Some (x - real n * real_of_int (if 0 \<le> x then \<lfloor>x / real n\<rfloor> else \<lceil>x / real n\<rceil>)))"

text \<open>\<^verbatim>\<open>VALID_MOVES[Math.floor(Math.random() * 3)]\<close>, the draw \<^verbatim>\<open>Math.random()\<close> being an
  argument.\<close>

definition random_move :: "real \<Rightarrow> string option" where
  "random_move rand = js_index VALID_MOVES (real_of_int \<lfloor>rand * 3\<rfloor>)"

definition counters :: "(string \<times> string) list" where
  "counters = [(''rock'', ''paper''), (''paper'', ''scissors''), (''scissors'', ''rock'')]"

text \<open>The query of \<^verbatim>\<open>counter_last_loss\<close>: the completed matches of the agent that someone
  else won, latest \<^verbatim>\<open>completed_at\<close> first (a null sorts first in descending order), one
  row. Where two rows have the same time the earlier row of the table is taken.\<close>

definition completed_later :: "matches_row \<Rightarrow> matches_row \<Rightarrow> bool" where
  "completed_later a b =
     (case completed_at b of None \<Rightarrow> False
      | Some tb \<Rightarrow> (case completed_at a of None \<Rightarrow> True | Some ta \<Rightarrow> tb < ta))"

fun most_recent :: "matches_row list \<Rightarrow> matches_row option" where
  "most_recent [] = None"
| "most_recent (m # ms) =
     (case most_recent ms of
        None \<Rightarrow> Some m
      | Some m' \<Rightarrow> if completed_later m' m then Some m' else Some m)"

definition last_loss :: "db \<Rightarrow> uuid \<Rightarrow> matches_row option" where
  "last_loss st agentId =
     most_recent
       (filter (\<lambda>m. winner_id m \<noteq> None \<and> winner_id m \<noteq> Some agentId
                   \<and> (agent1_id m = agentId \<or> agent2_id m = agentId)
                   \<and> status m = Complete)
          (map snd (matches st)))"

definition computeMove ::
  "db \<Rightarrow> real \<Rightarrow> strategy \<Rightarrow> jstate \<Rightarrow> uuid option \<Rightarrow> string option \<times> jstate" where
  "computeMove st rand strat state agentId =
     (case strat of
        Random \<Rightarrow> (random_move rand, state)
      | Always move \<Rightarrow> (Some move, state)
      | Cycle sequence \<Rightarrow>
          let index = (case map_of state ''index'' of Some (JNum x) \<Rightarrow> x | _ \<Rightarrow> 0);
              move = (case js_rem index (length sequence) of
                        None \<Rightarrow> None
                      | Some r \<Rightarrow> js_index sequence r)
          in (move,
              [(''index'', (case js_rem (index + 1) (length sequence) of
                             None \<Rightarrow> JNull
                           | Some r \<Rightarrow> JNum r))])
      | Weighted rock paper scissors \<Rightarrow>
          (Some (if rand < rock then ''rock''
                 else if rand < rock + paper then ''paper''
                 else ''scissors''), state)
      | Counter_last_loss \<Rightarrow>
          let lastLostTo =
                (case agentId of
                   None \<Rightarrow> None
                 | Some a \<Rightarrow>
                     if a = [] then None
                     else (case last_loss st a of
                             None \<Rightarrow> None
                           | Some data \<Rightarrow>
                               if agent1_id data = a then agent2_move data else agent1_move data))
          in ((case lastLostTo of
                 None \<Rightarrow> random_move rand
               | Some m \<Rightarrow> if m = [] then random_move rand else map_of counters m), state))"

definition advanceState :: "db \<Rightarrow> real \<Rightarrow> strategy \<Rightarrow> jstate \<Rightarrow> uuid option \<Rightarrow> jstate" where
  "advanceState st rand strat state agentId = snd (computeMove st rand strat state agentId)"

section \<open>Strategy validation\<close>



section \<open>Edge functions\<close>

text \<open>A JavaScript number as \<^verbatim>\<open>Number(...)\<close> returns it.\<close>

datatype number = NaN | Num real | PlusInfinity | MinusInfinity

fun Math_min :: "number \<Rightarrow> number \<Rightarrow> number" where
  "Math_min NaN y = NaN"
| "Math_min x NaN = NaN"
| "Math_min MinusInfinity y = MinusInfinity"
| "Math_min x MinusInfinity = MinusInfinity"
| "Math_min PlusInfinity y = y"
| "Math_min x PlusInfinity = x"
| "Math_min (Num a) (Num b) = Num (min a b)"

fun Math_max :: "number \<Rightarrow> number \<Rightarrow> number" where
  "Math_max NaN y = NaN"
| "Math_max x NaN = NaN"
| "Math_max PlusInfinity y = PlusInfinity"
| "Math_max x PlusInfinity = PlusInfinity"
| "Math_max MinusInfinity y = y"
| "Math_max x MinusInfinity = x"
| "Math_max (Num a) (Num b) = Num (max a b)"

text \<open>The accept-challenge handler from the two \<^verbatim>\<open>Number(body?..._seconds)\<close> on.\<close>

definition clamp_seconds :: "number \<Rightarrow> number" where
  "clamp_seconds req = (if req \<noteq> NaN then Math_max (Num 10) (Math_min (Num 120) req) else Num 60)"

text \<open>The parameters of \<^verbatim>\<open>create_match\<close> are \<^verbatim>\<open>INTEGER\<close>: the call is refused for a number
  that is not the text of a 32-bit integer.\<close>

definition as_integer :: "number \<Rightarrow> int option" where
  "as_integer x =
     (case x of
        Num r \<Rightarrow> if real_of_int \<lfloor>r\<rfloor> = r \<and> int4 \<lfloor>r\<rfloor> then Some \<lfloor>r\<rfloor> else None
      | _ \<Rightarrow> None)"

text \<open>The post-challenge handler from \<^verbatim>\<open>Number(body?.wager_amount)\<close> on. The escrow, the
  insert of the challenge and the refund are three separate calls, each committed on its
  own. \<open>new_id\<close> is the key the insert draws; the insert fails when the key is taken.\<close>

definition isInteger :: "number \<Rightarrow> bool" where
  "isInteger x = (case x of Num r \<Rightarrow> real_of_int \<lfloor>r\<rfloor> = r | _ \<Rightarrow> False)"

definition less_eq_zero :: "number \<Rightarrow> bool" where
  "less_eq_zero x = (case x of Num r \<Rightarrow> r \<le> 0 | MinusInfinity \<Rightarrow> True | _ \<Rightarrow> False)"

definition post_challenge :: "uuid \<Rightarrow> uuid \<Rightarrow> number \<Rightarrow> db \<Rightarrow> (error + uuid) \<times> db" where
  "post_challenge new_id agent_id wager st =
     (if \<not> isInteger wager \<or> less_eq_zero wager then (Inl Invalid_wager, st)
      else
        (case as_integer wager of
           None \<Rightarrow> (Inl Invalid_integer_syntax, st)
         | Some p_amount \<Rightarrow>
             (case rpc (escrow_wager agent_id p_amount) st of
                (Inl escrowError, st1) \<Rightarrow> (Inl escrowError, st1)
              | (Inr escrowed, st1) \<Rightarrow>
                  if \<not> escrowed then (Inl (Escrow_refused p_amount), st1)
                  else if map_of (challenges st1) new_id \<noteq> None then
                    (Inl (Unique_violation ''challenges_pkey''),
                     snd (rpc (refund_wager agent_id p_amount) st1))
                  else
                    (Inr new_id,
                     st1\<lparr>challenges := challenges st1 @
                           [(new_id, \<lparr>challenger_id = agent_id, c_wager_amount = p_amount,
                                      c_status = Open\<rparr>)]\<rparr>))))"

definition accept_challenge ::
  "timestamptz \<Rightarrow> uuid \<Rightarrow> uuid \<Rightarrow> uuid \<Rightarrow> number \<Rightarrow> number \<Rightarrow> db \<Rightarrow> (error + matches_row) \<times> db" where
  "accept_challenge now new_id agent_id challengeId reqStrategySeconds reqCommitSeconds st =
     (let strategySeconds = clamp_seconds reqStrategySeconds;
          commitSeconds = clamp_seconds reqCommitSeconds
      in (case (as_integer strategySeconds, as_integer commitSeconds) of
            (Some p_strategy_seconds, Some p_commit_seconds) \<Rightarrow>
              rpc (create_match now new_id challengeId agent_id p_strategy_seconds p_commit_seconds) st
          | _ \<Rightarrow> (Inl Invalid_integer_syntax, st)))"

text \<open>The reaper, \<^verbatim>\<open>process-stale-matches\<close>. The view \<^verbatim>\<open>stale_matches\<close> gives the rows past a
  deadline; \<^verbatim>\<open>processMatch\<close> gets one of them, reads both agents from the \<^verbatim>\<open>agents\<close> table and
  calls \<^verbatim>\<open>resolve_match\<close>. \<open>rand1\<close> and \<open>rand2\<close> are the draws of the two strategy runs.\<close>

definition stale_matches :: "timestamptz \<Rightarrow> db \<Rightarrow> (uuid \<times> matches_row) list" where
  "stale_matches now st =
     filter (\<lambda>(k, m). (status m = Pending \<and> now > commit_deadline m)
                     \<or> (status m = Waiting_reveals
                         \<and> (case reveal_deadline m of None \<Rightarrow> False | Some d \<Rightarrow> now > d)))
       (matches st)"

record reaper_result =
  r_match_id :: uuid
  r_winner_id :: "uuid option"
  r_agent1_move :: "string option"
  r_agent2_move :: "string option"
  r_agent1_fallback :: bool
  r_agent2_fallback :: bool

definition processMatch ::
  "timestamptz \<Rightarrow> real \<Rightarrow> real \<Rightarrow> uuid \<times> matches_row \<Rightarrow> db \<Rightarrow> error + (reaper_result \<times> db)" where
  "processMatch now rand1 rand2 row st =
     (let mid = fst row; m = snd row in
      case (map_of (agents st) (agent1_id m), map_of (agents st) (agent2_id m)) of
        (Some agent1, Some agent2) \<Rightarrow>
          let (agent1Move, newState1, agent1Fallback, agent2Move, newState2, agent2Fallback) =
                (if status m = Pending then
                   let agent1Committed = (agent1_move_hash m \<noteq> None);
                       agent2Committed = (agent2_move_hash m \<noteq> None);
                       r1 = computeMove st rand1 (strategy agent1) (strategy_state agent1)
                              (Some (agent1_id m));
                       r2 = computeMove st rand2 (strategy agent2) (strategy_state agent2)
                              (Some (agent2_id m))
                   in (fst r1, snd r1, \<not> agent1Committed, fst r2, snd r2, \<not> agent2Committed)
                 else
                   let (agent1Move, newState1, agent1Fallback) =
                         (if agent1_move m \<noteq> None
                          then (agent1_move m,
                                advanceState st rand1 (strategy agent1) (strategy_state agent1)
                                  (Some (agent1_id m)), False)
                          else
                            let r1 = computeMove st rand1 (strategy agent1) (strategy_state agent1)
                                       (Some (agent1_id m))
                            in (fst r1, snd r1, True));
                       (agent2Move, newState2, agent2Fallback) =
                         (if agent2_move m \<noteq> None
                          then (agent2_move m,
                                advanceState st rand2 (strategy agent2) (strategy_state agent2)
                                  (Some (agent2_id m)), False)
                          else
                            let r2 = computeMove st rand2 (strategy agent2) (strategy_state agent2)
                                       (Some (agent2_id m))
                            in (fst r2, snd r2, True))
                   in (agent1Move, newState1, agent1Fallback, agent2Move, newState2, agent2Fallback))
          in bind_result
               (resolve_match now mid agent1Move agent2Move agent1Fallback agent2Fallback
                  newState1 newState2 st)
               (\<lambda>(resolved, st').
                  Inr (\<lparr>r_match_id = mid, r_winner_id = winner_id resolved,
                        r_agent1_move = agent1Move, r_agent2_move = agent2Move,
                        r_agent1_fallback = agent1Fallback, r_agent2_fallback = agent2Fallback\<rparr>,
                       st'))
      | _ \<Rightarrow> Inl (Agents_not_found mid))"

section \<open>Auxiliary notions for the statements\<close>

text \<open>What a list of transaction rows pays to an agent.\<close>

definition credited :: "transactions_row list \<Rightarrow> uuid \<Rightarrow> int" where
  "credited rows a = sum_list (map amount (filter (\<lambda>t. to_agent_id t = a) rows))"

text \<open>Calling \<^verbatim>\<open>resolve_match\<close> for one match again and again, each call with arguments of
  its own: the answers, and the database after the last call.\<close>

type_synonym resolve_args =
  "timestamptz \<times> string option \<times> string option \<times> bool \<times> bool \<times> jstate \<times> jstate"

fun resolve_repeatedly ::
  "uuid \<Rightarrow> resolve_args list \<Rightarrow> db \<Rightarrow> (error + matches_row) list \<times> db" where
  "resolve_repeatedly mid [] st = ([], st)"
| "resolve_repeatedly mid ((now, p1, p2, f1, f2, s1, s2) # calls) st =
     (let (r, st1) = rpc (resolve_match now mid p1 p2 f1 f2 s1 s2) st;
          (rs, st2) = resolve_repeatedly mid calls st1
      in (r # rs, st2))"

section \<open>A small arena\<close>

text \<open>Two registered agents, A and B, with the starting balance of 1000 chips, and the
  states they pass through: A posts a challenge for 50 chips; B accepts it, asking for a
  strategy window of 500 seconds and naming no commit window; A commits; either B
  commits too, or A changes its strategy while the match is still pending. The lemmas
  of the section on the arena below show that the operations lead from each state to the
  next. In the arena the digest is the identity, so that hashes can be read.\<close>

definition new_agent :: "strategy \<Rightarrow> agents_row" where
  "new_agent s =
     \<lparr>balance = 1000, wins = 0, losses = 0, draws = 0, strategy = s, strategy_state = []\<rparr>"

definition arena :: db where
  "arena = \<lparr>agents = [(''A'', new_agent (Always ''rock'')), (''B'', new_agent (Always ''scissors''))],
            challenges = [], matches = [], transactions = []\<rparr>"

definition challenge_c1 :: challenges_row where
  "challenge_c1 = \<lparr>challenger_id = ''A'', c_wager_amount = 50, c_status = Open\<rparr>"

definition arena_posted :: db where
  "arena_posted =
     \<lparr>agents = [(''A'', (new_agent (Always ''rock''))\<lparr>balance := 950\<rparr>),
                (''B'', new_agent (Always ''scissors''))],
      challenges = [(''c1'', challenge_c1)], matches = [], transactions = []\<rparr>"

definition match_m1 :: matches_row where
  "match_m1 =
     \<lparr>challenge_id = ''c1'', agent1_id = ''A'', agent2_id = ''B'', wager_amount = 50,
      status = Pending, phase = Strategy, strategy_deadline = Some 120000000,
      commit_deadline = 180000000, agent1_move_hash = None, agent2_move_hash = None,
      reveal_deadline = None, agent1_move = None, agent1_salt = None, agent2_move = None,
      agent2_salt = None, agent1_used_fallback = False, agent2_used_fallback = False,
      agent1_strategy = Always ''rock'', agent2_strategy = Always ''scissors'',
      winner_id = None, completed_at = None\<rparr>"

definition arena_accepted :: db where
  "arena_accepted =
     \<lparr>agents = [(''A'', (new_agent (Always ''rock''))\<lparr>balance := 950\<rparr>),
                (''B'', (new_agent (Always ''scissors''))\<lparr>balance := 950\<rparr>)],
      challenges = [(''c1'', challenge_c1\<lparr>c_status := Matched\<rparr>)],
      matches = [(''m1'', match_m1)], transactions = []\<rparr>"


definition salt_A :: string where
  "salt_A = ''000102030405060708090a0b0c0d0eff''"

definition salt_B :: string where
  "salt_B = ''0123456789abcdef''"

definition match_m1_committed_A :: matches_row where
  "match_m1_committed_A = match_m1\<lparr>agent1_move_hash := Some (''rock'' @ salt_A)\<rparr>"

definition arena_committed_A :: db where
  "arena_committed_A = arena_accepted\<lparr>matches := [(''m1'', match_m1_committed_A)]\<rparr>"

definition match_m1_waiting :: matches_row where
  "match_m1_waiting =
     match_m1_committed_A\<lparr>agent2_move_hash := Some (''scissors'' @ salt_B),
        status := Waiting_reveals, reveal_deadline := Some 200000000\<rparr>"

definition arena_waiting :: db where
  "arena_waiting = arena_accepted\<lparr>matches := [(''m1'', match_m1_waiting)]\<rparr>"

definition arena_restrategised :: db where
  "arena_restrategised =
     arena_committed_A\<lparr>agents :=
        [(''A'', (new_agent (Always ''paper''))\<lparr>balance := 950\<rparr>),
         (''B'', (new_agent (Always ''scissors''))\<lparr>balance := 950\<rparr>)]\<rparr>"

definition match_m1_resolved :: matches_row where
  "match_m1_resolved =
     match_m1_waiting\<lparr>status := Complete, phase := Finished, agent1_move := Some ''rock'',
        agent2_move := Some ''scissors'', winner_id := Some ''A'',
        completed_at := Some 150000000\<rparr>"

definition arena_resolved :: db where
  "arena_resolved =
     \<lparr>agents = [(''A'', (new_agent (Always ''rock''))\<lparr>balance := 1050, wins := 1\<rparr>),
                (''B'', (new_agent (Always ''scissors''))\<lparr>balance := 950, losses := 1\<rparr>)],
      challenges = [(''c1'', challenge_c1\<lparr>c_status := Matched\<rparr>)],
      matches = [(''m1'', match_m1_resolved)],
      transactions = [\<lparr>match_id = Some ''m1'', from_agent_id = Some ''B'', to_agent_id = ''A'',
                       amount = 100, tx_note = ''match winnings''\<rparr>]\<rparr>"

text \<open>The reaper runs 200 seconds after the match was created, past the commit deadline:
  on the arena where only A committed, and on the one where A has changed its strategy
  as well.\<close>

definition match_m1_reaped :: matches_row where
  "match_m1_reaped =
     match_m1_committed_A\<lparr>status := Complete, phase := Finished, agent1_move := Some ''rock'',
        agent2_move := Some ''scissors'', agent2_used_fallback := True,
        winner_id := Some ''A'', completed_at := Some 200000000\<rparr>"

definition arena_reaped :: db where
  "arena_reaped = arena_resolved\<lparr>matches := [(''m1'', match_m1_reaped)]\<rparr>"

definition reaped :: reaper_result where
  "reaped =
     \<lparr>r_match_id = ''m1'', r_winner_id = Some ''A'', r_agent1_move = Some ''rock'',
      r_agent2_move = Some ''scissors'', r_agent1_fallback = False, r_agent2_fallback = True\<rparr>"

definition match_m1_reaped_paper :: matches_row where
  "match_m1_reaped_paper =
     match_m1_committed_A\<lparr>status := Complete, phase := Finished, agent1_move := Some ''paper'',
        agent2_move := Some ''scissors'', agent2_used_fallback := True,
        winner_id := Some ''B'', completed_at := Some 200000000\<rparr>"

definition arena_reaped_paper :: db where
  "arena_reaped_paper =
     \<lparr>agents = [(''A'', (new_agent (Always ''paper''))\<lparr>balance := 950, losses := 1\<rparr>),
                (''B'', (new_agent (Always ''scissors''))\<lparr>balance := 1050, wins := 1\<rparr>)],
      challenges = [(''c1'', challenge_c1\<lparr>c_status := Matched\<rparr>)],
      matches = [(''m1'', match_m1_reaped_paper)],
      transactions = [\<lparr>match_id = Some ''m1'', from_agent_id = Some ''A'', to_agent_id = ''B'',
                       amount = 100, tx_note = ''match winnings''\<rparr>]\<rparr>"

definition reaped_paper :: reaper_result where
  "reaped_paper =
     \<lparr>r_match_id = ''m1'', r_winner_id = Some ''B'', r_agent1_move = Some ''paper'',
      r_agent2_move = Some ''scissors'', r_agent1_fallback = False, r_agent2_fallback = True\<rparr>"

text \<open>Instead of being accepted, the challenge is cancelled by A.\<close>

definition arena_cancelled :: db where
  "arena_cancelled =
     \<lparr>agents = [(''A'', new_agent (Always ''rock'')), (''B'', new_agent (Always ''scissors''))],
      challenges = [(''c1'', challenge_c1\<lparr>c_status := Cancelled\<rparr>)], matches = [],
      transactions = [\<lparr>match_id = None, from_agent_id = None, to_agent_id = ''A'', amount = 50,
                       tx_note = ''challenge cancelled '' @ em_dash @ '' wager returned''\<rparr>]\<rparr>"

section \<open>Basic facts about the building blocks\<close>

lemma bind_result_simps [simp]:
  "bind_result (Inl e) f = Inl e"
  "bind_result (Inr x) f = f x"
  by (simp_all add: bind_result_def)

lemma bind_result_eq_Inr:
  "bind_result m f = Inr y \<longleftrightarrow> (\<exists>x. m = Inr x \<and> f x = Inr y)"
  by (cases m) simp_all

lemma map_of_modify_where:
  "map_of (modify_where P f rows) k = (if P k then map_option f (map_of rows k) else map_of rows k)"
  by (induction rows) (auto simp: modify_where_def)

lemma update_agents_Inr:
  "update_agents P f st = Inr st' \<Longrightarrow> st' = st\<lparr>agents := modify_where P f (agents st)\<rparr>"
  by (auto simp: update_agents_def split: option.splits)

lemma insert_transaction_Inr:
  "insert_transaction t st = Inr st' \<Longrightarrow>
     st' = st\<lparr>transactions := transactions st @ [t]\<rparr> \<and> 0 < amount t
       \<and> map_of (agents st) (to_agent_id t) \<noteq> None"
  by (auto simp: insert_transaction_def split: if_splits)

lemma return_match_Inr:
  "return_match mid st = Inr (row, st') \<longleftrightarrow> map_of (matches st) mid = Some row \<and> st' = st"
  by (auto simp: return_match_def split: option.splits)

lemma settle_win_Inr:
  assumes "settle_win mid v w l st = Inr st'"
  shows "st' = st\<lparr>agents :=
                   modify_where (\<lambda>k. k = l) (\<lambda>a. a\<lparr>losses := losses a + 1\<rparr>)
                     (modify_where (\<lambda>k. k = w) (\<lambda>a. a\<lparr>wins := wins a + 1\<rparr>)
                        (modify_where (\<lambda>k. k = w) (\<lambda>a. a\<lparr>balance := balance a + wager_amount v * 2\<rparr>)
                           (agents st))),
                 transactions := transactions st @
                   [\<lparr>match_id = Some mid, from_agent_id = Some l, to_agent_id = w,
                     amount = wager_amount v * 2, tx_note = ''match winnings''\<rparr>]\<rparr>"
  using assms
  by (auto simp: settle_win_def bind_result_eq_Inr split: if_splits
           dest!: update_agents_Inr insert_transaction_Inr)

lemma settle_draw_Inr:
  assumes "settle_draw mid v st = Inr st'"
  shows "st' = st\<lparr>agents :=
                   modify_where (\<lambda>k. k = agent1_id v \<or> k = agent2_id v) (\<lambda>a. a\<lparr>draws := draws a + 1\<rparr>)
                     (modify_where (\<lambda>k. k = agent1_id v \<or> k = agent2_id v)
                        (\<lambda>a. a\<lparr>balance := balance a + wager_amount v\<rparr>) (agents st)),
                 transactions := transactions st @
                   [\<lparr>match_id = Some mid, from_agent_id = None, to_agent_id = agent1_id v,
                     amount = wager_amount v, tx_note = ''draw '' @ em_dash @ '' wager returned''\<rparr>,
                    \<lparr>match_id = Some mid, from_agent_id = None, to_agent_id = agent2_id v,
                     amount = wager_amount v, tx_note = ''draw '' @ em_dash @ '' wager returned''\<rparr>]\<rparr>"
  using assms
  by (auto simp: settle_draw_def bind_result_eq_Inr
           dest!: update_agents_Inr insert_transaction_Inr)

lemma settle_draw_matches: "settle_draw mid v st = Inr st' \<Longrightarrow> matches st' = matches st"
  by (drule settle_draw_Inr) simp

lemma settle_win_matches: "settle_win mid v w l st = Inr st' \<Longrightarrow> matches st' = matches st"
  by (drule settle_win_Inr) simp

text \<open>What a successful \<^verbatim>\<open>resolve_match\<close> has done, statement by statement.\<close>

lemma resolve_match_Inr:
  assumes res: "resolve_match now mid p1 p2 f1 f2 s1 s2 st = Inr (row, st')"
  obtains v st2 where
    "map_of (matches st) mid = Some v" "status v \<noteq> Complete"
    "\<not> move_not_in_valid p1" "\<not> move_not_in_valid p2"
    "(if p1 \<noteq> None \<and> p1 = p2
      then settle_draw mid v
             (update_matches mid (\<lambda>m. m\<lparr>agent1_move := p1, agent2_move := p2,
                agent1_used_fallback := f1, agent2_used_fallback := f2\<rparr>) st)
      else if agent1_beats p1 p2
        then settle_win mid v (agent1_id v) (agent2_id v)
               (update_matches mid (\<lambda>m. m\<lparr>agent1_move := p1, agent2_move := p2,
                  agent1_used_fallback := f1, agent2_used_fallback := f2\<rparr>) st)
      else settle_win mid v (agent2_id v) (agent1_id v)
             (update_matches mid (\<lambda>m. m\<lparr>agent1_move := p1, agent2_move := p2,
                agent1_used_fallback := f1, agent2_used_fallback := f2\<rparr>) st)) = Inr st2"
    "st' = (update_matches mid
              (\<lambda>m. m\<lparr>status := Complete,
                      winner_id := (if p1 \<noteq> None \<and> p1 = p2 then None
                                    else if agent1_beats p1 p2 then Some (agent1_id v)
                                    else Some (agent2_id v)),
                      completed_at := Some now\<rparr>) st2)
            \<lparr>agents := modify_where (\<lambda>k. k = agent2_id v) (\<lambda>a. a\<lparr>strategy_state := s2\<rparr>)
                 (modify_where (\<lambda>k. k = agent1_id v) (\<lambda>a. a\<lparr>strategy_state := s1\<rparr>) (agents st2))\<rparr>"
    "map_of (matches st') mid = Some row"
proof -
  from res obtain v where v: "map_of (matches st) mid = Some v"
    by (auto simp: resolve_match_def split: option.splits)
  from res v have ok: "status v \<noteq> Complete" "\<not> move_not_in_valid p1" "\<not> move_not_in_valid p2"
    by (auto simp: resolve_match_def split: if_splits)
  let ?st1 = "update_matches mid (\<lambda>m. m\<lparr>agent1_move := p1, agent2_move := p2,
                agent1_used_fallback := f1, agent2_used_fallback := f2\<rparr>) st"
  let ?w = "if p1 \<noteq> None \<and> p1 = p2 then None
            else if agent1_beats p1 p2 then Some (agent1_id v) else Some (agent2_id v)"
  from res v ok obtain st2 st4 st5 where
      st2: "(if p1 \<noteq> None \<and> p1 = p2 then settle_draw mid v ?st1
             else if agent1_beats p1 p2
               then settle_win mid v (agent1_id v) (agent2_id v) ?st1
             else settle_win mid v (agent2_id v) (agent1_id v) ?st1) = Inr st2"
    and st4: "update_agents (\<lambda>k. k = agent1_id v) (\<lambda>a. a\<lparr>strategy_state := s1\<rparr>)
                (update_matches mid (\<lambda>m. m\<lparr>status := Complete, winner_id := ?w,
                   completed_at := Some now\<rparr>) st2) = Inr st4"
    and st5: "update_agents (\<lambda>k. k = agent2_id v) (\<lambda>a. a\<lparr>strategy_state := s2\<rparr>) st4 = Inr st5"
    and ret: "return_match mid st5 = Inr (row, st')"
    by (simp add: resolve_match_def Let_def bind_result_eq_Inr) blast
  from ret have eq: "st' = st5" and row: "map_of (matches st') mid = Some row"
    by (simp_all add: return_match_Inr)
  from update_agents_Inr [OF st4] update_agents_Inr [OF st5] eq
  have fin: "st' = (update_matches mid (\<lambda>m. m\<lparr>status := Complete, winner_id := ?w,
                   completed_at := Some now\<rparr>) st2)
            \<lparr>agents := modify_where (\<lambda>k. k = agent2_id v) (\<lambda>a. a\<lparr>strategy_state := s2\<rparr>)
                 (modify_where (\<lambda>k. k = agent1_id v) (\<lambda>a. a\<lparr>strategy_state := s1\<rparr>) (agents st2))\<rparr>"
    by (simp add: update_matches_def)
  from v ok st2 fin row show thesis
    by (rule that)
qed




lemma resolved_row:
  assumes v: "map_of (matches st) mid = Some v"
    and st2: "matches st2 = matches (update_matches mid (\<lambda>m. m\<lparr>agent1_move := p1, agent2_move := p2,
                agent1_used_fallback := f1, agent2_used_fallback := f2\<rparr>) st)"
    and st': "matches st' = matches (update_matches mid
              (\<lambda>m. m\<lparr>status := Complete, winner_id := w, completed_at := Some now\<rparr>) st2)"
    and row: "map_of (matches st') mid = Some row"
  shows "row = v\<lparr>status := Complete, phase := Finished, agent1_move := p1, agent2_move := p2,
                agent1_used_fallback := f1, agent2_used_fallback := f2, winner_id := w,
                completed_at := Some now\<rparr>"
proof -
  have "map_of (matches st') mid =
        Some (sync_match_phase ((sync_match_phase (v\<lparr>agent1_move := p1, agent2_move := p2,
                agent1_used_fallback := f1, agent2_used_fallback := f2\<rparr>))
                \<lparr>status := Complete, winner_id := w, completed_at := Some now\<rparr>))"
    by (simp add: st' st2 update_matches_def map_of_modify_where v)
  with row have "row = sync_match_phase ((sync_match_phase (v\<lparr>agent1_move := p1, agent2_move := p2,
                agent1_used_fallback := f1, agent2_used_fallback := f2\<rparr>))
                \<lparr>status := Complete, winner_id := w, completed_at := Some now\<rparr>)"
    by simp
  then show ?thesis
    by (cases "status v = Complete") (simp_all add: sync_match_phase_def)
qed

lemma frame_matches:
  "st' = (update_matches mid F st2)\<lparr>agents := A\<rparr> \<Longrightarrow> matches st' = matches (update_matches mid F st2)"
  by simp

lemma frame_agents:
  "st' = (update_matches mid F st2)\<lparr>agents := A\<rparr> \<Longrightarrow> agents st' = A"
  by simp

text \<open>The row \<^verbatim>\<open>resolve_match\<close> returns, whatever the moves.\<close>

lemma resolve_match_row:
  assumes res: "resolve_match now mid p1 p2 f1 f2 s1 s2 st = Inr (row, st')"
    and v: "map_of (matches st) mid = Some v"
  shows "row = v\<lparr>status := Complete, phase := Finished, agent1_move := p1, agent2_move := p2,
                agent1_used_fallback := f1, agent2_used_fallback := f2,
                winner_id := (if p1 \<noteq> None \<and> p1 = p2 then None
                              else if agent1_beats p1 p2 then Some (agent1_id v)
                              else Some (agent2_id v)),
                completed_at := Some now\<rparr>"
    and "map_of (matches st') mid = Some row"
proof -
  let ?st1 = "update_matches mid (\<lambda>m. m\<lparr>agent1_move := p1, agent2_move := p2,
                agent1_used_fallback := f1, agent2_used_fallback := f2\<rparr>) st"
  let ?w = "if p1 \<noteq> None \<and> p1 = p2 then None
            else if agent1_beats p1 p2 then Some (agent1_id v) else Some (agent2_id v)"
  from res obtain v' st2 where v': "map_of (matches st) mid = Some v'"
    and st2: "(if p1 \<noteq> None \<and> p1 = p2 then settle_draw mid v' ?st1
               else if agent1_beats p1 p2
                 then settle_win mid v' (agent1_id v') (agent2_id v') ?st1
               else settle_win mid v' (agent2_id v') (agent1_id v') ?st1) = Inr st2"
    and st': "st' = (update_matches mid
              (\<lambda>m. m\<lparr>status := Complete,
                      winner_id := (if p1 \<noteq> None \<and> p1 = p2 then None
                                    else if agent1_beats p1 p2 then Some (agent1_id v')
                                    else Some (agent2_id v')),
                      completed_at := Some now\<rparr>) st2)
            \<lparr>agents := modify_where (\<lambda>k. k = agent2_id v') (\<lambda>a. a\<lparr>strategy_state := s2\<rparr>)
                 (modify_where (\<lambda>k. k = agent1_id v') (\<lambda>a. a\<lparr>strategy_state := s1\<rparr>) (agents st2))\<rparr>"
    and row: "map_of (matches st') mid = Some row"
    by (rule resolve_match_Inr)
  from v v' have vv: "v' = v" by simp
  have m2: "matches st2 = matches ?st1"
    using st2 by (auto simp: settle_draw_matches settle_win_matches split: if_splits)
  have m': "matches st' = matches (update_matches mid
              (\<lambda>m. m\<lparr>status := Complete, winner_id := ?w, completed_at := Some now\<rparr>) st2)"
    by (rule frame_matches [OF st' [unfolded vv]])
  show "row = v\<lparr>status := Complete, phase := Finished, agent1_move := p1, agent2_move := p2,
                agent1_used_fallback := f1, agent2_used_fallback := f2,
                winner_id := ?w, completed_at := Some now\<rparr>"
    by (rule resolved_row [OF v m2 m' row])
  show "map_of (matches st') mid = Some row" by (rule row)
qed

section \<open>The arena, step by step\<close>

lemmas sql_defs =
  rpc_def update_agents_def agents_row_error_def int4_def modify_where_def update_matches_def
  sync_match_phase_def insert_transaction_def return_match_def seconds_def Let_def

lemmas arena_defs =
  arena_def arena_posted_def arena_accepted_def arena_committed_A_def arena_waiting_def
  arena_restrategised_def arena_resolved_def new_agent_def challenge_c1_def match_m1_def
  match_m1_committed_A_def match_m1_waiting_def match_m1_resolved_def salt_A_def salt_B_def
  match_m1_reaped_def arena_reaped_def reaped_def match_m1_reaped_paper_def
  arena_reaped_paper_def reaped_paper_def arena_cancelled_def

lemma arena_post:
  "post_challenge ''c1'' ''A'' (Num 50) arena = (Inr ''c1'', arena_posted)"
  by (simp add: arena_defs post_challenge_def isInteger_def less_eq_zero_def
        as_integer_def escrow_wager_def sql_defs)

lemma arena_accept:
  "accept_challenge 0 ''m1'' ''B'' ''c1'' (Num 500) NaN arena_posted = (Inr match_m1, arena_accepted)"
  by (simp add: arena_defs accept_challenge_def clamp_seconds_def as_integer_def
        create_match_def sql_defs)


lemma arena_commit_A:
  "rpc (submit_commit (seconds 130) ''m1'' ''A'' (''rock'' @ salt_A) 60) arena_accepted
     = (Inr match_m1_committed_A, arena_committed_A)"
  by (simp add: arena_defs submit_commit_def sql_defs)

lemma arena_commit_B:
  "rpc (submit_commit (seconds 140) ''m1'' ''B'' (commit_hash (\<lambda>x. x) ''scissors'' salt_B) 60)
       arena_committed_A
     = (Inr match_m1_waiting, arena_waiting)"
  by (simp add: arena_defs submit_commit_def commit_hash_def sql_defs)

lemma arena_resolve:
  "resolve_match 150000000 ''m1'' (Some ''rock'') (Some ''scissors'') False False [] [] arena_waiting
     = Inr (match_m1_resolved, arena_resolved)"
  by (simp add: arena_defs resolve_match_def move_not_in_valid_def VALID_MOVES_def
        agent1_beats_def settle_win_def sql_defs)

lemma arena_stale:
  "stale_matches 200000000 arena_committed_A = [(''m1'', match_m1_committed_A)]"
  "stale_matches 200000000 arena_restrategised = [(''m1'', match_m1_committed_A)]"
  by (simp_all add: arena_defs stale_matches_def)

lemmas reaper_defs =
  processMatch_def computeMove_def advanceState_def resolve_match_def move_not_in_valid_def
  VALID_MOVES_def agent1_beats_def settle_win_def settle_draw_def

lemma arena_reap:
  "processMatch 200000000 0 0 (''m1'', match_m1_committed_A) arena_committed_A
     = Inr (reaped, arena_reaped)"
  by (simp add: arena_defs reaper_defs sql_defs)

lemma arena_reap_paper:
  "processMatch 200000000 0 0 (''m1'', match_m1_committed_A) arena_restrategised
     = Inr (reaped_paper, arena_reaped_paper)"
  by (simp add: arena_defs reaper_defs sql_defs)

lemma arena_escrow:
  "escrow_wager ''A'' 50 arena = Inr (True, arena_posted\<lparr>challenges := []\<rparr>)"
  by (simp add: arena_defs escrow_wager_def sql_defs)

lemma arena_create_match:
  "create_match 0 ''m1'' ''c1'' ''B'' 120 60 arena_posted = Inr (match_m1, arena_accepted)"
  by (simp add: arena_defs create_match_def sql_defs)

lemma arena_cancel:
  "cancel_challenge ''c1'' ''A'' arena_posted
     = Inr ((True, 50, ''Challenge cancelled.''), arena_cancelled)"
  by (simp add: arena_defs cancel_challenge_def sql_defs)

section \<open>Resolution\<close>



lemma resolve_match_complete:
  assumes "map_of (matches st) mid = Some v" "status v = Complete"
  shows "resolve_match now mid p1 p2 f1 f2 s1 s2 st = Inl (Match_already_complete mid)"
  using assms by (simp add: resolve_match_def)

lemma resolve_repeatedly_complete:
  assumes "map_of (matches st) mid = Some v" "status v = Complete"
  shows "resolve_repeatedly mid calls st
           = (replicate (length calls) (Inl (Match_already_complete mid)), st)"
proof (induction calls)
  case Nil
  show ?case by simp
next
  case (Cons c calls)
  obtain now p1 p2 f1 f2 s1 s2 where c: "c = (now, p1, p2, f1, f2, s1, s2)"
    by (cases c) auto
  have "rpc (resolve_match now mid p1 p2 f1 f2 s1 s2) st = (Inl (Match_already_complete mid), st)"
    by (simp add: rpc_def resolve_match_complete [OF assms])
  with Cons.IH show ?case by (simp add: c)
qed

text \<open>
  Claim C2. \<^verbatim>\<open>resolve_match\<close> on a match that is already complete raises, so the call
  changes nothing in the database: balances, counters, strategy states, transactions and
  the match row are what they were. Hence however often and with whatever arguments
  \<^verbatim>\<open>resolve_match\<close> is called again for a match, after a resolution or on any complete
  match, every call is refused and the database stays as the one resolution left it.
\<close>

theorem resolve_match_exactly_once:
  "(map_of (matches st) mid = Some v \<and> status v = Complete \<longrightarrow>
      rpc (resolve_match now mid p1 p2 f1 f2 s1 s2) st = (Inl (Match_already_complete mid), st)
      \<and> resolve_repeatedly mid calls st
          = (replicate (length calls) (Inl (Match_already_complete mid)), st))
   \<and> (resolve_match now mid p1 p2 f1 f2 s1 s2 st = Inr (row, st') \<longrightarrow>
      resolve_repeatedly mid calls st'
          = (replicate (length calls) (Inl (Match_already_complete mid)), st'))"
proof (intro conjI impI)
  assume c: "map_of (matches st) mid = Some v \<and> status v = Complete"
  then show "rpc (resolve_match now mid p1 p2 f1 f2 s1 s2) st = (Inl (Match_already_complete mid), st)"
    by (simp add: rpc_def resolve_match_complete)
  from c show "resolve_repeatedly mid calls st
          = (replicate (length calls) (Inl (Match_already_complete mid)), st)"
    by (simp add: resolve_repeatedly_complete)
next
  assume res: "resolve_match now mid p1 p2 f1 f2 s1 s2 st = Inr (row, st')"
  then obtain v0 where v0: "map_of (matches st) mid = Some v0"
    by (rule resolve_match_Inr)
  from resolve_match_row [OF res v0]
  have "map_of (matches st') mid = Some row" and "status row = Complete"
    by simp_all
  then show "resolve_repeatedly mid calls st'
          = (replicate (length calls) (Inl (Match_already_complete mid)), st')"
    by (rule resolve_repeatedly_complete)
qed

theorem resolve_match_exactly_once_witness:
  "map_of (matches arena_resolved) ''m1'' = Some match_m1_resolved
   \<and> status match_m1_resolved = Complete
   \<and> rpc (resolve_match 160000000 ''m1'' (Some ''paper'') (Some ''rock'') True True [] []) arena_resolved
       = (Inl (Match_already_complete ''m1''), arena_resolved)
   \<and> resolve_match 150000000 ''m1'' (Some ''rock'') (Some ''scissors'') False False [] [] arena_waiting
       = Inr (match_m1_resolved, arena_resolved)
   \<and> resolve_repeatedly ''m1''
        [(160000000, Some ''paper'', Some ''rock'', True, True, [], []),
         (170000000, Some ''rock'', Some ''scissors'', False, False, [], [])] arena_resolved
       = (replicate 2 (Inl (Match_already_complete ''m1'')), arena_resolved)"
proof -
  let ?calls = "[(160000000, Some ''paper'', Some ''rock'', True, True, [], []),
                 (170000000, Some ''rock'', Some ''scissors'', False, False, [], [])]
                :: resolve_args list"
  have c: "map_of (matches arena_resolved) ''m1'' = Some match_m1_resolved
             \<and> status match_m1_resolved = Complete"
    by (simp add: arena_defs)
  have len: "length ?calls = 2" by simp
  from resolve_match_exactly_once
         [of arena_resolved "''m1''" match_m1_resolved 160000000 "Some ''paper''" "Some ''rock''"
             True True "[]" "[]" ?calls] c
  have 1: "rpc (resolve_match 160000000 ''m1'' (Some ''paper'') (Some ''rock'') True True [] [])
             arena_resolved = (Inl (Match_already_complete ''m1''), arena_resolved)"
    by blast
  from resolve_match_exactly_once
         [of arena_waiting "''m1''" match_m1_waiting 150000000 "Some ''rock''" "Some ''scissors''"
             False False "[]" "[]" ?calls match_m1_resolved arena_resolved] arena_resolve
  have 2: "resolve_repeatedly ''m1'' ?calls arena_resolved
       = (replicate (length ?calls) (Inl (Match_already_complete ''m1'')), arena_resolved)"
    by blast
  from c 1 2 arena_resolve show ?thesis
    by (simp only: len simp_thms)
qed

section \<open>Reveals\<close>

text \<open>
  Claim C5. \<^verbatim>\<open>submit_reveal\<close> raises, and so leaves the whole database as it was (match
  row, balances, ledger), whenever the match is missing or not in \<^verbatim>\<open>waiting_reveals\<close>, the
  reveal deadline has passed, the caller is not a participant, the caller has revealed
  already, or the digest of the move followed by the salt differs from the hash stored
  for the caller. When the hash is the only thing wrong the error is the hash mismatch:
  no move is stored in its place.
\<close>

theorem submit_reveal_rejects:
  "((map_of (matches st) mid = None
      \<or> (\<exists>v. map_of (matches st) mid = Some v \<and>
            (status v \<noteq> Waiting_reveals
             \<or> (\<exists>d. reveal_deadline v = Some d \<and> d < now)
             \<or> (aid \<noteq> agent1_id v \<and> aid \<noteq> agent2_id v)
             \<or> (aid = agent1_id v \<and> agent1_move v \<noteq> None)
             \<or> (aid \<noteq> agent1_id v \<and> agent2_move v \<noteq> None)
             \<or> (aid = agent1_id v \<and> (\<exists>h. agent1_move_hash v = Some h \<and> h \<noteq> H (move @ salt)))
             \<or> (aid \<noteq> agent1_id v \<and> (\<exists>h. agent2_move_hash v = Some h \<and> h \<noteq> H (move @ salt))))))
     \<longrightarrow> (\<exists>e. rpc (submit_reveal H now mid aid move salt) st = (Inl e, st)))
   \<and> (map_of (matches st) mid = Some v \<and> status v = Waiting_reveals
        \<and> (\<forall>d. reveal_deadline v = Some d \<longrightarrow> now \<le> d) \<and> move \<in> set VALID_MOVES
        \<and> (aid = agent1_id v \<and> agent1_move v = None \<and> n = 1
              \<and> (\<exists>h. agent1_move_hash v = Some h \<and> h \<noteq> H (move @ salt))
            \<or> aid \<noteq> agent1_id v \<and> aid = agent2_id v \<and> agent2_move v = None \<and> n = 2
              \<and> (\<exists>h. agent2_move_hash v = Some h \<and> h \<noteq> H (move @ salt)))
     \<longrightarrow> rpc (submit_reveal H now mid aid move salt) st = (Inl (Hash_mismatch n mid), st))"
proof (intro conjI impI)
  assume "map_of (matches st) mid = None
      \<or> (\<exists>v. map_of (matches st) mid = Some v \<and>
            (status v \<noteq> Waiting_reveals
             \<or> (\<exists>d. reveal_deadline v = Some d \<and> d < now)
             \<or> (aid \<noteq> agent1_id v \<and> aid \<noteq> agent2_id v)
             \<or> (aid = agent1_id v \<and> agent1_move v \<noteq> None)
             \<or> (aid \<noteq> agent1_id v \<and> agent2_move v \<noteq> None)
             \<or> (aid = agent1_id v \<and> (\<exists>h. agent1_move_hash v = Some h \<and> h \<noteq> H (move @ salt)))
             \<or> (aid \<noteq> agent1_id v \<and> (\<exists>h. agent2_move_hash v = Some h \<and> h \<noteq> H (move @ salt)))))"
  then have "\<exists>e. submit_reveal H now mid aid move salt st = Inl e"
    by (auto simp: submit_reveal_def Let_def)
  then show "\<exists>e. rpc (submit_reveal H now mid aid move salt) st = (Inl e, st)"
    by (auto simp: rpc_def)
next
  assume "map_of (matches st) mid = Some v \<and> status v = Waiting_reveals
        \<and> (\<forall>d. reveal_deadline v = Some d \<longrightarrow> now \<le> d) \<and> move \<in> set VALID_MOVES
        \<and> (aid = agent1_id v \<and> agent1_move v = None \<and> n = 1
              \<and> (\<exists>h. agent1_move_hash v = Some h \<and> h \<noteq> H (move @ salt))
            \<or> aid \<noteq> agent1_id v \<and> aid = agent2_id v \<and> agent2_move v = None \<and> n = 2
              \<and> (\<exists>h. agent2_move_hash v = Some h \<and> h \<noteq> H (move @ salt)))"
  then have "submit_reveal H now mid aid move salt st = Inl (Hash_mismatch n mid)"
    by (auto simp: submit_reveal_def Let_def split: option.splits)
  then show "rpc (submit_reveal H now mid aid move salt) st = (Inl (Hash_mismatch n mid), st)"
    by (simp add: rpc_def)
qed


text \<open>The scenario of the specification: in the arena A committed to rock and now reveals
  paper with the same salt. The reveal is refused as a hash mismatch and the database,
  with the match still in \<^verbatim>\<open>waiting_reveals\<close>, is unchanged.\<close>

theorem submit_reveal_rejects_witness:
  "map_of (matches arena_waiting) ''m1'' = Some match_m1_waiting
   \<and> status match_m1_waiting = Waiting_reveals
   \<and> agent1_move_hash match_m1_waiting = Some (''rock'' @ salt_A)
   \<and> ''rock'' @ salt_A \<noteq> ''paper'' @ salt_A
   \<and> rpc (submit_reveal (\<lambda>x. x) 150000000 ''m1'' ''A'' ''paper'' salt_A) arena_waiting
        = (Inl (Hash_mismatch 1 ''m1''), arena_waiting)"
proof -
  have h: "map_of (matches arena_waiting) ''m1'' = Some match_m1_waiting"
    "status match_m1_waiting = Waiting_reveals"
    "agent1_move_hash match_m1_waiting = Some (''rock'' @ salt_A)"
    "''rock'' @ salt_A \<noteq> ''paper'' @ salt_A"
    "reveal_deadline match_m1_waiting = Some 200000000"
    "agent1_id match_m1_waiting = ''A''" "agent1_move match_m1_waiting = None"
    "''paper'' \<in> set VALID_MOVES"
    by (simp_all add: arena_defs VALID_MOVES_def)
  from submit_reveal_rejects
         [where st = arena_waiting and mid = "''m1''" and aid = "''A''" and H = "\<lambda>x. x"
            and move = "''paper''" and salt = salt_A and now = 150000000
            and v = match_m1_waiting and n = 1] h
  have "rpc (submit_reveal (\<lambda>x. x) 150000000 ''m1'' ''A'' ''paper'' salt_A) arena_waiting
        = (Inl (Hash_mismatch 1 ''m1''), arena_waiting)"
    by simp
  with h show ?thesis by simp
qed

section \<open>Commitments\<close>

lemma createCommit_commit_hash:
  "createCommit H randomBytes move
     = (commit_hash H move (to_hex randomBytes), to_hex randomBytes)"
  by (simp add: createCommit_def Let_def)







section \<open>The cycle strategy\<close>










section \<open>Validation of a weighted strategy\<close>


lemma option_json_case:
  "(case x of None \<Rightarrow> False | Some j \<Rightarrow> R j) \<longleftrightarrow> (\<exists>j. x = Some j \<and> R j)"
  by (cases x) simp_all








section \<open>Match creation\<close>








section \<open>The reaper on a pending match\<close>

text \<open>What \<^verbatim>\<open>processMatch\<close> has done when it returns for a row in status pending: it read
  both agents from the \<^verbatim>\<open>agents\<close> table, ran the strategy of each, and resolved the match
  with these two moves.\<close>

lemma processMatch_pending:
  assumes pm: "processMatch now rand1 rand2 (mid, m) st = Inr (res, st')"
    and pend: "status m = Pending"
  obtains a1 a2 row where
    "map_of (agents st) (agent1_id m) = Some a1"
    "map_of (agents st) (agent2_id m) = Some a2"
    "resolve_match now mid
       (fst (computeMove st rand1 (strategy a1) (strategy_state a1) (Some (agent1_id m))))
       (fst (computeMove st rand2 (strategy a2) (strategy_state a2) (Some (agent2_id m))))
       (agent1_move_hash m = None) (agent2_move_hash m = None)
       (snd (computeMove st rand1 (strategy a1) (strategy_state a1) (Some (agent1_id m))))
       (snd (computeMove st rand2 (strategy a2) (strategy_state a2) (Some (agent2_id m))))
       st = Inr (row, st')"
    "res = \<lparr>r_match_id = mid, r_winner_id = winner_id row,
            r_agent1_move = fst (computeMove st rand1 (strategy a1) (strategy_state a1)
                                   (Some (agent1_id m))),
            r_agent2_move = fst (computeMove st rand2 (strategy a2) (strategy_state a2)
                                   (Some (agent2_id m))),
            r_agent1_fallback = (agent1_move_hash m = None),
            r_agent2_fallback = (agent2_move_hash m = None)\<rparr>"
proof -
  from pm obtain a1 where a1: "map_of (agents st) (agent1_id m) = Some a1"
    by (cases "map_of (agents st) (agent1_id m)") (simp_all add: processMatch_def)
  from pm a1 obtain a2 where a2: "map_of (agents st) (agent2_id m) = Some a2"
    by (cases "map_of (agents st) (agent2_id m)") (simp_all add: processMatch_def)
  from pm a1 a2 pend obtain row where
      "resolve_match now mid
       (fst (computeMove st rand1 (strategy a1) (strategy_state a1) (Some (agent1_id m))))
       (fst (computeMove st rand2 (strategy a2) (strategy_state a2) (Some (agent2_id m))))
       (agent1_move_hash m = None) (agent2_move_hash m = None)
       (snd (computeMove st rand1 (strategy a1) (strategy_state a1) (Some (agent1_id m))))
       (snd (computeMove st rand2 (strategy a2) (strategy_state a2) (Some (agent2_id m))))
       st = Inr (row, st')"
    and "res = \<lparr>r_match_id = mid, r_winner_id = winner_id row,
            r_agent1_move = fst (computeMove st rand1 (strategy a1) (strategy_state a1)
                                   (Some (agent1_id m))),
            r_agent2_move = fst (computeMove st rand2 (strategy a2) (strategy_state a2)
                                   (Some (agent2_id m))),
            r_agent1_fallback = (agent1_move_hash m = None),
            r_agent2_fallback = (agent2_move_hash m = None)\<rparr>"
    by (auto simp: processMatch_def Let_def bind_result_eq_Inr)
  with a1 a2 show thesis by (rule that)
qed


text \<open>The match row after the reaper has resolved a pending match.\<close>

lemma processMatch_pending_row:
  assumes pm: "processMatch now rand1 rand2 (mid, m) st = Inr (res, st')"
    and pend: "status m = Pending"
  obtains a1 a2 v row where
    "map_of (agents st) (agent1_id m) = Some a1"
    "map_of (agents st) (agent2_id m) = Some a2"
    "map_of (matches st) mid = Some v"
    "map_of (matches st') mid = Some row"
    "row = v\<lparr>status := Complete, phase := Finished,
              agent1_move := fst (computeMove st rand1 (strategy a1) (strategy_state a1)
                                    (Some (agent1_id m))),
              agent2_move := fst (computeMove st rand2 (strategy a2) (strategy_state a2)
                                    (Some (agent2_id m))),
              agent1_used_fallback := (agent1_move_hash m = None),
              agent2_used_fallback := (agent2_move_hash m = None),
              winner_id :=
                (let p1 = fst (computeMove st rand1 (strategy a1) (strategy_state a1)
                                 (Some (agent1_id m)));
                     p2 = fst (computeMove st rand2 (strategy a2) (strategy_state a2)
                                 (Some (agent2_id m)))
                 in if p1 \<noteq> None \<and> p1 = p2 then None
                    else if agent1_beats p1 p2 then Some (agent1_id v)
                    else Some (agent2_id v)),
              completed_at := Some now\<rparr>"
    "res = \<lparr>r_match_id = mid, r_winner_id = winner_id row,
            r_agent1_move = agent1_move row, r_agent2_move = agent2_move row,
            r_agent1_fallback = (agent1_move_hash m = None),
            r_agent2_fallback = (agent2_move_hash m = None)\<rparr>"
proof -
  from pm pend obtain a1 a2 row where a1: "map_of (agents st) (agent1_id m) = Some a1"
    and a2: "map_of (agents st) (agent2_id m) = Some a2"
    and rm: "resolve_match now mid
       (fst (computeMove st rand1 (strategy a1) (strategy_state a1) (Some (agent1_id m))))
       (fst (computeMove st rand2 (strategy a2) (strategy_state a2) (Some (agent2_id m))))
       (agent1_move_hash m = None) (agent2_move_hash m = None)
       (snd (computeMove st rand1 (strategy a1) (strategy_state a1) (Some (agent1_id m))))
       (snd (computeMove st rand2 (strategy a2) (strategy_state a2) (Some (agent2_id m))))
       st = Inr (row, st')"
    and res: "res = \<lparr>r_match_id = mid, r_winner_id = winner_id row,
            r_agent1_move = fst (computeMove st rand1 (strategy a1) (strategy_state a1)
                                   (Some (agent1_id m))),
            r_agent2_move = fst (computeMove st rand2 (strategy a2) (strategy_state a2)
                                   (Some (agent2_id m))),
            r_agent1_fallback = (agent1_move_hash m = None),
            r_agent2_fallback = (agent2_move_hash m = None)\<rparr>"
    by (rule processMatch_pending)
  from rm obtain v where v: "map_of (matches st) mid = Some v"
    by (rule resolve_match_Inr)
  note rr = resolve_match_row [OF rm v]
  from rr(1) have row: "row = v\<lparr>status := Complete, phase := Finished,
              agent1_move := fst (computeMove st rand1 (strategy a1) (strategy_state a1)
                                    (Some (agent1_id m))),
              agent2_move := fst (computeMove st rand2 (strategy a2) (strategy_state a2)
                                    (Some (agent2_id m))),
              agent1_used_fallback := (agent1_move_hash m = None),
              agent2_used_fallback := (agent2_move_hash m = None),
              winner_id :=
                (let p1 = fst (computeMove st rand1 (strategy a1) (strategy_state a1)
                                 (Some (agent1_id m)));
                     p2 = fst (computeMove st rand2 (strategy a2) (strategy_state a2)
                                 (Some (agent2_id m)))
                 in if p1 \<noteq> None \<and> p1 = p2 then None
                    else if agent1_beats p1 p2 then Some (agent1_id v)
                    else Some (agent2_id v)),
              completed_at := Some now\<rparr>"
    by (simp only: Let_def)
  from res row have res': "res = \<lparr>r_match_id = mid, r_winner_id = winner_id row,
            r_agent1_move = agent1_move row, r_agent2_move = agent2_move row,
            r_agent1_fallback = (agent1_move_hash m = None),
            r_agent2_fallback = (agent2_move_hash m = None)\<rparr>"
    by simp
  from a1 a2 v rr(2) row res' show thesis by (rule that)
qed

text \<open>
  Claim C10. When the reaper resolves a match that timed out in status pending, the
  fallback flag it records for an agent is true exactly when that agent had stored no
  commit hash. An agent that had committed is stamped \<^verbatim>\<open>used_fallback = false\<close>, although
  its final move, like the other agent's, is the one its strategy computes and not one
  taken from the commit.
\<close>

theorem pending_timeout_fallback_flags:
  assumes pm: "processMatch now rand1 rand2 (mid, m) st = Inr (res, st')"
    and pend: "status m = Pending"
  shows "\<exists>a1 a2 row.
           map_of (agents st) (agent1_id m) = Some a1
         \<and> map_of (agents st) (agent2_id m) = Some a2
         \<and> map_of (matches st') mid = Some row \<and> status row = Complete
         \<and> agent1_used_fallback row = (agent1_move_hash m = None)
         \<and> agent2_used_fallback row = (agent2_move_hash m = None)
         \<and> r_agent1_fallback res = (agent1_move_hash m = None)
         \<and> r_agent2_fallback res = (agent2_move_hash m = None)
         \<and> agent1_move row
             = fst (computeMove st rand1 (strategy a1) (strategy_state a1) (Some (agent1_id m)))
         \<and> agent2_move row
             = fst (computeMove st rand2 (strategy a2) (strategy_state a2) (Some (agent2_id m)))"
proof -
  from pm pend obtain a1 a2 v row where
      "map_of (agents st) (agent1_id m) = Some a1"
      "map_of (agents st) (agent2_id m) = Some a2"
      "map_of (matches st) mid = Some v"
      "map_of (matches st') mid = Some row"
      "row = v\<lparr>status := Complete, phase := Finished,
              agent1_move := fst (computeMove st rand1 (strategy a1) (strategy_state a1)
                                    (Some (agent1_id m))),
              agent2_move := fst (computeMove st rand2 (strategy a2) (strategy_state a2)
                                    (Some (agent2_id m))),
              agent1_used_fallback := (agent1_move_hash m = None),
              agent2_used_fallback := (agent2_move_hash m = None),
              winner_id :=
                (let p1 = fst (computeMove st rand1 (strategy a1) (strategy_state a1)
                                 (Some (agent1_id m)));
                     p2 = fst (computeMove st rand2 (strategy a2) (strategy_state a2)
                                 (Some (agent2_id m)))
                 in if p1 \<noteq> None \<and> p1 = p2 then None
                    else if agent1_beats p1 p2 then Some (agent1_id v)
                    else Some (agent2_id v)),
              completed_at := Some now\<rparr>"
      "res = \<lparr>r_match_id = mid, r_winner_id = winner_id row,
            r_agent1_move = agent1_move row, r_agent2_move = agent2_move row,
            r_agent1_fallback = (agent1_move_hash m = None),
            r_agent2_fallback = (agent2_move_hash m = None)\<rparr>"
    by (rule processMatch_pending_row)
  then show ?thesis
    by (intro exI [of _ a1] exI [of _ a2] exI [of _ row]) simp
qed

text \<open>In the arena A had committed and B had not when the commit deadline passed. The
  reaper plays both strategies, rock and scissors, and records no fallback for A and a
  fallback for B.\<close>

theorem pending_timeout_fallback_flags_witness:
  "processMatch 200000000 0 0 (''m1'', match_m1_committed_A) arena_committed_A
     = Inr (reaped, arena_reaped)
   \<and> status match_m1_committed_A = Pending
   \<and> agent1_move_hash match_m1_committed_A \<noteq> None
   \<and> agent2_move_hash match_m1_committed_A = None
   \<and> map_of (matches arena_reaped) ''m1'' = Some match_m1_reaped
   \<and> \<not> agent1_used_fallback match_m1_reaped \<and> agent2_used_fallback match_m1_reaped
   \<and> agent1_move match_m1_reaped = Some ''rock''
   \<and> agent2_move match_m1_reaped = Some ''scissors''"
proof -
  have pend: "status match_m1_committed_A = Pending"
    and h: "agent1_move_hash match_m1_committed_A \<noteq> None"
           "agent2_move_hash match_m1_committed_A = None"
    and look: "map_of (matches arena_reaped) ''m1'' = Some match_m1_reaped"
    and moves: "agent1_move match_m1_reaped = Some ''rock''"
               "agent2_move match_m1_reaped = Some ''scissors''"
    by (simp_all add: arena_defs)
  from pending_timeout_fallback_flags [OF arena_reap pend] look h
  have "\<not> agent1_used_fallback match_m1_reaped \<and> agent2_used_fallback match_m1_reaped"
    by auto
  with arena_reap pend h look moves show ?thesis by simp
qed


text \<open>
  Claim C4 as stated fails in one point: the reaper does not run the strategies
  snapshotted on the match row. In the arena A changed its strategy from always rock to
  always paper after the match was created. The match row still carries the snapshot
  always rock, which would play rock; the reaper resolves the match with paper for A, the
  move of the strategy A has now, and B wins.
\<close>

theorem reaper_snapshot_counterexample:
  "stale_matches 200000000 arena_restrategised = [(''m1'', match_m1_committed_A)]
   \<and> status match_m1_committed_A = Pending
   \<and> agent1_strategy match_m1_committed_A = Always ''rock''
   \<and> fst (computeMove arena_restrategised 0 (agent1_strategy match_m1_committed_A) []
            (Some ''A'')) = Some ''rock''
   \<and> processMatch 200000000 0 0 (''m1'', match_m1_committed_A) arena_restrategised
        = Inr (reaped_paper, arena_reaped_paper)
   \<and> r_agent1_move reaped_paper = Some ''paper''
   \<and> r_winner_id reaped_paper = Some ''B''"
  by (simp add: arena_stale arena_reap_paper)
     (simp add: arena_defs computeMove_def)

text \<open>
  Claim C4, amended: for every match in status pending whose commit deadline has passed
  (a row of the view \<^verbatim>\<open>stale_matches\<close>), the reaper computes both agents' final moves with
  the strategy executor from the strategy and the strategy state the agents have in the
  \<^verbatim>\<open>agents\<close> table at that moment, whether or not a side had submitted a commit hash: with
  any other commit hashes on the row, also none or both, the moves and the winner are
  the same, so a commit hash is never used as a move.
\<close>

theorem reaper_pending_moves:
  assumes stale: "(mid, m) \<in> set (stale_matches now st)"
    and pend: "status m = Pending"
    and pm: "processMatch now rand1 rand2 (mid, m) st = Inr (res, st')"
  shows "commit_deadline m < now
     \<and> (\<exists>a1 a2 row.
           map_of (agents st) (agent1_id m) = Some a1
         \<and> map_of (agents st) (agent2_id m) = Some a2
         \<and> map_of (matches st') mid = Some row
         \<and> agent1_move row
             = fst (computeMove st rand1 (strategy a1) (strategy_state a1) (Some (agent1_id m)))
         \<and> agent2_move row
             = fst (computeMove st rand2 (strategy a2) (strategy_state a2) (Some (agent2_id m)))
         \<and> r_agent1_move res = agent1_move row \<and> r_agent2_move res = agent2_move row)
     \<and> (\<forall>h1 h2 res2 st2.
           processMatch now rand1 rand2
             (mid, m\<lparr>agent1_move_hash := h1, agent2_move_hash := h2\<rparr>) st = Inr (res2, st2)
           \<longrightarrow> r_agent1_move res2 = r_agent1_move res
             \<and> r_agent2_move res2 = r_agent2_move res
             \<and> r_winner_id res2 = r_winner_id res)"
proof -
  from stale pend have dl: "commit_deadline m < now"
    by (auto simp: stale_matches_def)
  from pm pend obtain a1 a2 v row where a1: "map_of (agents st) (agent1_id m) = Some a1"
    and a2: "map_of (agents st) (agent2_id m) = Some a2"
    and v: "map_of (matches st) mid = Some v"
    and look: "map_of (matches st') mid = Some row"
    and row: "row = v\<lparr>status := Complete, phase := Finished,
              agent1_move := fst (computeMove st rand1 (strategy a1) (strategy_state a1)
                                    (Some (agent1_id m))),
              agent2_move := fst (computeMove st rand2 (strategy a2) (strategy_state a2)
                                    (Some (agent2_id m))),
              agent1_used_fallback := (agent1_move_hash m = None),
              agent2_used_fallback := (agent2_move_hash m = None),
              winner_id :=
                (let p1 = fst (computeMove st rand1 (strategy a1) (strategy_state a1)
                                 (Some (agent1_id m)));
                     p2 = fst (computeMove st rand2 (strategy a2) (strategy_state a2)
                                 (Some (agent2_id m)))
                 in if p1 \<noteq> None \<and> p1 = p2 then None
                    else if agent1_beats p1 p2 then Some (agent1_id v)
                    else Some (agent2_id v)),
              completed_at := Some now\<rparr>"
    and res: "res = \<lparr>r_match_id = mid, r_winner_id = winner_id row,
            r_agent1_move = agent1_move row, r_agent2_move = agent2_move row,
            r_agent1_fallback = (agent1_move_hash m = None),
            r_agent2_fallback = (agent2_move_hash m = None)\<rparr>"
    by (rule processMatch_pending_row)
  have part2: "\<exists>a1 a2 row.
           map_of (agents st) (agent1_id m) = Some a1
         \<and> map_of (agents st) (agent2_id m) = Some a2
         \<and> map_of (matches st') mid = Some row
         \<and> agent1_move row
             = fst (computeMove st rand1 (strategy a1) (strategy_state a1) (Some (agent1_id m)))
         \<and> agent2_move row
             = fst (computeMove st rand2 (strategy a2) (strategy_state a2) (Some (agent2_id m)))
         \<and> r_agent1_move res = agent1_move row \<and> r_agent2_move res = agent2_move row"
    using a1 a2 look row res
    by (intro exI [of _ a1] exI [of _ a2] exI [of _ row]) simp
  have part3: "r_agent1_move res2 = r_agent1_move res \<and> r_agent2_move res2 = r_agent2_move res
             \<and> r_winner_id res2 = r_winner_id res"
    if pm2: "processMatch now rand1 rand2
               (mid, m\<lparr>agent1_move_hash := h1, agent2_move_hash := h2\<rparr>) st = Inr (res2, st2)"
    for h1 h2 res2 st2
  proof -
    let ?m = "m\<lparr>agent1_move_hash := h1, agent2_move_hash := h2\<rparr>"
    from pend have pend2: "status ?m = Pending" by simp
    from pm2 pend2 obtain b1 b2 v2 row2 where
        b1: "map_of (agents st) (agent1_id ?m) = Some b1"
      and b2: "map_of (agents st) (agent2_id ?m) = Some b2"
      and v2: "map_of (matches st) mid = Some v2"
      and row2: "row2 = v2\<lparr>status := Complete, phase := Finished,
              agent1_move := fst (computeMove st rand1 (strategy b1) (strategy_state b1)
                                    (Some (agent1_id ?m))),
              agent2_move := fst (computeMove st rand2 (strategy b2) (strategy_state b2)
                                    (Some (agent2_id ?m))),
              agent1_used_fallback := (agent1_move_hash ?m = None),
              agent2_used_fallback := (agent2_move_hash ?m = None),
              winner_id :=
                (let p1 = fst (computeMove st rand1 (strategy b1) (strategy_state b1)
                                 (Some (agent1_id ?m)));
                     p2 = fst (computeMove st rand2 (strategy b2) (strategy_state b2)
                                 (Some (agent2_id ?m)))
                 in if p1 \<noteq> None \<and> p1 = p2 then None
                    else if agent1_beats p1 p2 then Some (agent1_id v2)
                    else Some (agent2_id v2)),
              completed_at := Some now\<rparr>"
      and res2: "res2 = \<lparr>r_match_id = mid, r_winner_id = winner_id row2,
            r_agent1_move = agent1_move row2, r_agent2_move = agent2_move row2,
            r_agent1_fallback = (agent1_move_hash ?m = None),
            r_agent2_fallback = (agent2_move_hash ?m = None)\<rparr>"
      by (rule processMatch_pending_row)
    from a1 b1 have e1: "b1 = a1" by simp
    from a2 b2 have e2: "b2 = a2" by simp
    from v v2 have e3: "v2 = v" by simp
    have "agent1_move row2 = agent1_move row" "agent2_move row2 = agent2_move row"
      "winner_id row2 = winner_id row"
      by (simp_all add: row row2 [unfolded e1 e2 e3])
    then show ?thesis by (simp add: res res2)
  qed
  from dl part2 part3 show ?thesis by blast
qed

text \<open>In the arena A had committed when the commit deadline passed. The reaper plays
  the strategies of both, rock for A and scissors for B.\<close>

theorem reaper_pending_moves_witness:
  "(''m1'', match_m1_committed_A) \<in> set (stale_matches 200000000 arena_committed_A)
   \<and> status match_m1_committed_A = Pending
   \<and> agent1_move_hash match_m1_committed_A = Some (''rock'' @ salt_A)
   \<and> processMatch 200000000 0 0 (''m1'', match_m1_committed_A) arena_committed_A
        = Inr (reaped, arena_reaped)
   \<and> commit_deadline match_m1_committed_A < 200000000
   \<and> r_agent1_move reaped = Some ''rock'' \<and> r_agent2_move reaped = Some ''scissors''
   \<and> map_of (agents arena_committed_A) ''A'' = Some ((new_agent (Always ''rock''))\<lparr>balance := 950\<rparr>)
   \<and> map_of (agents arena_committed_A) ''B''
        = Some ((new_agent (Always ''scissors''))\<lparr>balance := 950\<rparr>)"
proof -
  have stale: "(''m1'', match_m1_committed_A) \<in> set (stale_matches 200000000 arena_committed_A)"
    by (simp add: arena_stale)
  have pend: "status match_m1_committed_A = Pending"
    and h: "agent1_move_hash match_m1_committed_A = Some (''rock'' @ salt_A)"
    and ag: "map_of (agents arena_committed_A) ''A''
               = Some ((new_agent (Always ''rock''))\<lparr>balance := 950\<rparr>)"
            "map_of (agents arena_committed_A) ''B''
               = Some ((new_agent (Always ''scissors''))\<lparr>balance := 950\<rparr>)"
    and mv: "r_agent1_move reaped = Some ''rock''" "r_agent2_move reaped = Some ''scissors''"
    by (simp_all add: arena_defs)
  from reaper_pending_moves [OF stale pend arena_reap]
  have "commit_deadline match_m1_committed_A < 200000000"
    by (rule conjunct1)
  with stale pend h arena_reap ag mv show ?thesis by (intro conjI)
qed

section \<open>The ledger and the transaction log\<close>

lemma credited_simps:
  "credited [] a = 0"
  "credited (t # ts) a = (if to_agent_id t = a then amount t else 0) + credited ts a"
  by (simp_all add: credited_def)

lemma balance_of_modify:
  "balance_of (st\<lparr>agents := modify_where P f (agents st)\<rparr>) a =
     (case map_of (agents st) a of
        None \<Rightarrow> 0
      | Some r \<Rightarrow> if P a then balance (f r) else balance r)"
  by (simp add: balance_of_def map_of_modify_where split: option.splits)

lemma balance_of_frame:
  "agents st' = agents st \<Longrightarrow> balance_of st' a = balance_of st a"
  by (simp add: balance_of_def)

lemma escrow_wager_transactions:
  "escrow_wager p_agent_id p_amount st = Inr (ok, st') \<Longrightarrow> transactions st' = transactions st"
  by (auto simp: escrow_wager_def bind_result_eq_Inr split: if_splits dest!: update_agents_Inr)

lemma refund_wager_transactions:
  "refund_wager p_agent_id p_amount st = Inr (u, st') \<Longrightarrow> transactions st' = transactions st"
  by (auto simp: refund_wager_def bind_result_eq_Inr dest!: update_agents_Inr)


lemma cancel_challenge_ledger:
  assumes res: "cancel_challenge p_challenge_id p_agent_id st = Inr (r, st')"
  shows "\<exists>rows. transactions st' = transactions st @ rows
           \<and> (\<forall>a. balance_of st' a - balance_of st a = credited rows a)"
proof (cases "\<exists>c. map_of (challenges st) p_challenge_id = Some c
                  \<and> challenger_id c = p_agent_id \<and> c_status c = Open")
  case False
  with res have "st' = st"
    by (auto simp: cancel_challenge_def split: option.splits if_splits)
  then have "transactions st' = transactions st @ []
           \<and> (\<forall>a. balance_of st' a - balance_of st a = credited [] a)"
    by (simp add: credited_simps)
  then show ?thesis by blast
next
  case True
  then obtain c where c: "map_of (challenges st) p_challenge_id = Some c"
    "challenger_id c = p_agent_id" "c_status c = Open"
    by blast
  let ?st1 = "st\<lparr>challenges := modify_where (\<lambda>k. k = p_challenge_id)
                                  (\<lambda>c. c\<lparr>c_status := Cancelled\<rparr>) (challenges st)\<rparr>"
  let ?t = "\<lparr>match_id = None, from_agent_id = None, to_agent_id = p_agent_id,
             amount = c_wager_amount c,
             tx_note = ''challenge cancelled '' @ em_dash @ '' wager returned''\<rparr>"
  from res c obtain st2 where
      st2: "update_agents (\<lambda>k. k = p_agent_id)
              (\<lambda>a. a\<lparr>balance := balance a + c_wager_amount c\<rparr>) ?st1 = Inr st2"
    and ins: "insert_transaction ?t st2 = Inr st'"
    by (auto simp: cancel_challenge_def Let_def bind_result_eq_Inr)
  from update_agents_Inr [OF st2]
  have ag2: "agents st2 = modify_where (\<lambda>k. k = p_agent_id)
               (\<lambda>a. a\<lparr>balance := balance a + c_wager_amount c\<rparr>) (agents st)"
    and tx2: "transactions st2 = transactions st"
    by simp_all
  from insert_transaction_Inr [OF ins]
  have st': "st' = st2\<lparr>transactions := transactions st2 @ [?t]\<rparr>"
    and ex2: "map_of (agents st2) p_agent_id \<noteq> None"
    by simp_all
  from ex2 ag2 obtain a0 where a0: "map_of (agents st) p_agent_id = Some a0"
    by (cases "map_of (agents st) p_agent_id") (simp_all add: map_of_modify_where)
  from st' tx2 have tx: "transactions st' = transactions st @ [?t]" by simp
  from st' ag2 have ag: "agents st' = modify_where (\<lambda>k. k = p_agent_id)
               (\<lambda>a. a\<lparr>balance := balance a + c_wager_amount c\<rparr>) (agents st)"
    by simp
  have "balance_of st' a - balance_of st a = credited [?t] a" for a
  proof (cases "a = p_agent_id")
    case True
    with a0 show ?thesis
      by (simp add: balance_of_def ag map_of_modify_where credited_simps)
  next
    case False
    then show ?thesis
      by (simp add: balance_of_def ag map_of_modify_where credited_simps split: option.splits)
  qed
  with tx show ?thesis by blast
qed

lemma settle_win_exists:
  "settle_win mid v w l st = Inr st' \<Longrightarrow> map_of (agents st) w \<noteq> None"
proof -
  assume res: "settle_win mid v w l st = Inr st'"
  then obtain st1 st2 where
      st1: "update_agents (\<lambda>k. k = w)
              (\<lambda>a. a\<lparr>balance := balance a + wager_amount v * 2\<rparr>) st = Inr st1"
    and ins: "insert_transaction
                \<lparr>match_id = Some mid, from_agent_id = Some l, to_agent_id = w,
                 amount = wager_amount v * 2, tx_note = ''match winnings''\<rparr> st1 = Inr st2"
    by (auto simp: settle_win_def bind_result_eq_Inr split: if_splits)
  from insert_transaction_Inr [OF ins] have "map_of (agents st1) w \<noteq> None" by simp
  with update_agents_Inr [OF st1] show ?thesis
    by (cases "map_of (agents st) w") (simp_all add: map_of_modify_where)
qed

lemma settle_draw_exists:
  assumes res: "settle_draw mid v st = Inr st'"
  shows "map_of (agents st) (agent1_id v) \<noteq> None \<and> map_of (agents st) (agent2_id v) \<noteq> None"
proof -
  from res obtain st1 st2 st3 where
      st1: "update_agents (\<lambda>k. k = agent1_id v \<or> k = agent2_id v)
              (\<lambda>a. a\<lparr>balance := balance a + wager_amount v\<rparr>) st = Inr st1"
    and i1: "insert_transaction
               \<lparr>match_id = Some mid, from_agent_id = None, to_agent_id = agent1_id v,
                amount = wager_amount v, tx_note = ''draw '' @ em_dash @ '' wager returned''\<rparr>
               st1 = Inr st2"
    and i2: "insert_transaction
               \<lparr>match_id = Some mid, from_agent_id = None, to_agent_id = agent2_id v,
                amount = wager_amount v, tx_note = ''draw '' @ em_dash @ '' wager returned''\<rparr>
               st2 = Inr st3"
    by (auto simp: settle_draw_def bind_result_eq_Inr)
  from insert_transaction_Inr [OF i1] have e1: "map_of (agents st1) (agent1_id v) \<noteq> None"
    and ag: "agents st2 = agents st1"
    by simp_all
  from insert_transaction_Inr [OF i2] ag have e2: "map_of (agents st1) (agent2_id v) \<noteq> None"
    by simp
  from update_agents_Inr [OF st1] e1 have "map_of (agents st) (agent1_id v) \<noteq> None"
    by (cases "map_of (agents st) (agent1_id v)") (simp_all add: map_of_modify_where)
  moreover from update_agents_Inr [OF st1] e2 have "map_of (agents st) (agent2_id v) \<noteq> None"
    by (cases "map_of (agents st) (agent2_id v)") (simp_all add: map_of_modify_where)
  ultimately show ?thesis by simp
qed

lemma settle_win_ledger:
  assumes res: "settle_win mid v w l st = Inr st'"
  shows "\<exists>rows. transactions st' = transactions st @ rows
           \<and> (\<forall>a. balance_of st' a - balance_of st a = credited rows a)"
proof -
  let ?t = "\<lparr>match_id = Some mid, from_agent_id = Some l, to_agent_id = w,
             amount = wager_amount v * 2, tx_note = ''match winnings''\<rparr>"
  from settle_win_exists [OF res] obtain a0 where a0: "map_of (agents st) w = Some a0"
    by blast
  note eq = settle_win_Inr [OF res]
  from eq have tx: "transactions st' = transactions st @ [?t]" by simp
  from eq have ag: "agents st' =
      modify_where (\<lambda>k. k = l) (\<lambda>a. a\<lparr>losses := losses a + 1\<rparr>)
        (modify_where (\<lambda>k. k = w) (\<lambda>a. a\<lparr>wins := wins a + 1\<rparr>)
           (modify_where (\<lambda>k. k = w) (\<lambda>a. a\<lparr>balance := balance a + wager_amount v * 2\<rparr>)
              (agents st)))"
    by simp
  have "balance_of st' a - balance_of st a = credited [?t] a" for a
  proof (cases "a = w")
    case True
    with a0 show ?thesis
      by (auto simp: balance_of_def ag map_of_modify_where credited_simps)
  next
    case False
    then show ?thesis
      by (simp add: balance_of_def ag map_of_modify_where credited_simps split: option.splits)
  qed
  with tx show ?thesis by blast
qed

lemma settle_draw_ledger:
  assumes res: "settle_draw mid v st = Inr st'"
    and ne: "agent1_id v \<noteq> agent2_id v"
  shows "\<exists>rows. transactions st' = transactions st @ rows
           \<and> (\<forall>a. balance_of st' a - balance_of st a = credited rows a)"
proof -
  let ?t1 = "\<lparr>match_id = Some mid, from_agent_id = None, to_agent_id = agent1_id v,
              amount = wager_amount v, tx_note = ''draw '' @ em_dash @ '' wager returned''\<rparr>"
  let ?t2 = "\<lparr>match_id = Some mid, from_agent_id = None, to_agent_id = agent2_id v,
              amount = wager_amount v, tx_note = ''draw '' @ em_dash @ '' wager returned''\<rparr>"
  from settle_draw_exists [OF res] obtain b1 b2 where
    b: "map_of (agents st) (agent1_id v) = Some b1" "map_of (agents st) (agent2_id v) = Some b2"
    by blast
  note eq = settle_draw_Inr [OF res]
  from eq have tx: "transactions st' = transactions st @ [?t1, ?t2]" by simp
  from eq have ag: "agents st' =
      modify_where (\<lambda>k. k = agent1_id v \<or> k = agent2_id v) (\<lambda>a. a\<lparr>draws := draws a + 1\<rparr>)
        (modify_where (\<lambda>k. k = agent1_id v \<or> k = agent2_id v)
           (\<lambda>a. a\<lparr>balance := balance a + wager_amount v\<rparr>) (agents st))"
    by simp
  have "balance_of st' a - balance_of st a = credited [?t1, ?t2] a" for a
  proof -
    consider "a = agent1_id v" | "a = agent2_id v" | "a \<noteq> agent1_id v" "a \<noteq> agent2_id v"
      by auto
    then show ?thesis
    proof cases
      case 1
      with b ne show ?thesis
        by (simp add: balance_of_def ag map_of_modify_where credited_simps)
    next
      case 2
      with b ne show ?thesis
        by (simp add: balance_of_def ag map_of_modify_where credited_simps)
    next
      case 3
      then show ?thesis
        by (simp add: balance_of_def ag map_of_modify_where credited_simps split: option.splits)
    qed
  qed
  with tx show ?thesis by blast
qed


lemma escrow_wager_balance:
  assumes res: "escrow_wager p_agent_id p_amount st = Inr (True, st')"
    and r: "map_of (agents st) p_agent_id = Some r"
  shows "balance_of st' p_agent_id = balance r - p_amount"
proof -
  from res obtain st1 where
      st1: "update_agents (\<lambda>k. k = p_agent_id) (\<lambda>a. a\<lparr>balance := balance a - p_amount\<rparr>) st
              = Inr st1"
    and eq: "st' = st1"
    by (auto simp: escrow_wager_def bind_result_eq_Inr split: if_splits)
  from update_agents_Inr [OF st1] eq r show ?thesis
    by (simp add: balance_of_def map_of_modify_where)
qed

lemma refund_wager_balance:
  assumes res: "refund_wager p_agent_id p_amount st = Inr (u, st')"
    and r: "map_of (agents st) p_agent_id = Some r"
  shows "balance_of st' p_agent_id = balance r + p_amount"
proof -
  from res obtain st1 where
      st1: "update_agents (\<lambda>k. k = p_agent_id) (\<lambda>a. a\<lparr>balance := balance a + p_amount\<rparr>) st
              = Inr st1"
    and eq: "st' = st1"
    by (auto simp: refund_wager_def bind_result_eq_Inr)
  from update_agents_Inr [OF st1] eq r show ?thesis
    by (simp add: balance_of_def map_of_modify_where)
qed

lemma create_match_ledger:
  assumes res: "create_match now new_id p_challenge_id p_accepter_id p_strategy_seconds
                  p_commit_seconds st = Inr (row, st')"
  shows "transactions st' = transactions st
       \<and> balance_of st' p_accepter_id = balance_of st p_accepter_id - wager_amount row"
proof -
  from res obtain vc where vc: "map_of (challenges st) p_challenge_id = Some vc"
    by (cases "map_of (challenges st) p_challenge_id") (simp_all add: create_match_def)
  from res vc have g: "c_status vc = Open" "challenger_id vc \<noteq> p_accepter_id"
    by (auto simp: create_match_def split: if_splits)
  from res vc g obtain c where c: "map_of (agents st) (challenger_id vc) = Some c"
    by (cases "map_of (agents st) (challenger_id vc)")
       (auto simp: create_match_def Let_def bind_result_eq_Inr split: if_splits)
  from res vc g c obtain a where a: "map_of (agents st) p_accepter_id = Some a"
    by (cases "map_of (agents st) p_accepter_id")
       (auto simp: create_match_def Let_def bind_result_eq_Inr split: if_splits)
  from res vc g c a obtain st1 where
      st1: "update_agents (\<lambda>k. k = p_accepter_id)
              (\<lambda>a. a\<lparr>balance := balance a - c_wager_amount vc\<rparr>) st = Inr st1"
    and st': "st' = st1\<lparr>matches := matches st1 @ [(new_id, row)],
                      challenges := modify_where (\<lambda>k. k = p_challenge_id)
                         (\<lambda>c. c\<lparr>c_status := Matched\<rparr>) (challenges st1)\<rparr>"
    and w: "wager_amount row = c_wager_amount vc"
    by (auto simp: create_match_def Let_def bind_result_eq_Inr split: if_splits)
  from update_agents_Inr [OF st1] st' have "transactions st' = transactions st"
    and "agents st' = modify_where (\<lambda>k. k = p_accepter_id)
              (\<lambda>a. a\<lparr>balance := balance a - c_wager_amount vc\<rparr>) (agents st)"
    by simp_all
  with a w show ?thesis
    by (simp add: balance_of_def map_of_modify_where)
qed

lemma resolve_match_ledger:
  assumes res: "resolve_match now mid p1 p2 f1 f2 s1 s2 st = Inr (row, st')"
    and v: "map_of (matches st) mid = Some v"
    and ne: "agent1_id v \<noteq> agent2_id v"
  shows "\<exists>rows. transactions st' = transactions st @ rows
           \<and> (\<forall>a. balance_of st' a - balance_of st a = credited rows a)"
proof -
  let ?st1 = "update_matches mid (\<lambda>m. m\<lparr>agent1_move := p1, agent2_move := p2,
                agent1_used_fallback := f1, agent2_used_fallback := f2\<rparr>) st"
  let ?w = "if p1 \<noteq> None \<and> p1 = p2 then None
            else if agent1_beats p1 p2 then Some (agent1_id v) else Some (agent2_id v)"
  from res obtain v' st2 where
      v': "map_of (matches st) mid = Some v'"
    and ok: "status v' \<noteq> Complete" "\<not> move_not_in_valid p1" "\<not> move_not_in_valid p2"
    and st2': "(if p1 \<noteq> None \<and> p1 = p2 then settle_draw mid v' ?st1
               else if agent1_beats p1 p2
                 then settle_win mid v' (agent1_id v') (agent2_id v') ?st1
               else settle_win mid v' (agent2_id v') (agent1_id v') ?st1) = Inr st2"
    and st'': "st' = (update_matches mid
              (\<lambda>m. m\<lparr>status := Complete,
                      winner_id := (if p1 \<noteq> None \<and> p1 = p2 then None
                                    else if agent1_beats p1 p2 then Some (agent1_id v')
                                    else Some (agent2_id v')),
                      completed_at := Some now\<rparr>) st2)
            \<lparr>agents := modify_where (\<lambda>k. k = agent2_id v') (\<lambda>a. a\<lparr>strategy_state := s2\<rparr>)
                 (modify_where (\<lambda>k. k = agent1_id v') (\<lambda>a. a\<lparr>strategy_state := s1\<rparr>) (agents st2))\<rparr>"
    and row: "map_of (matches st') mid = Some row"
    by (rule resolve_match_Inr)
  from v v' have vv: "v' = v" by simp
  note st2 = st2' [unfolded vv]
  have tx': "transactions st' = transactions st2"
    by (simp add: st'' update_matches_def)
  have ag': "agents st' =
      modify_where (\<lambda>k. k = agent2_id v) (\<lambda>a. a\<lparr>strategy_state := s2\<rparr>)
        (modify_where (\<lambda>k. k = agent1_id v) (\<lambda>a. a\<lparr>strategy_state := s1\<rparr>) (agents st2))"
    by (rule frame_agents [OF st'' [unfolded vv]])
  have pre: "agents ?st1 = agents st" "transactions ?st1 = transactions st"
    by (simp_all add: update_matches_def)
  have "\<exists>rows. transactions st2 = transactions ?st1 @ rows
           \<and> (\<forall>a. balance_of st2 a - balance_of ?st1 a = credited rows a)"
  proof (cases "p1 \<noteq> None \<and> p1 = p2")
    case True
    note st2 [unfolded if_P [OF True]]
    from settle_draw_ledger [OF this ne] show ?thesis .
  next
    case False
    note r = st2 [unfolded if_not_P [OF False]]
    show ?thesis
    proof (cases "agent1_beats p1 p2")
      case True
      note r [unfolded if_P [OF True]]
      from settle_win_ledger [OF this] show ?thesis .
    next
      case nb: False
      note r [unfolded if_not_P [OF nb]]
      from settle_win_ledger [OF this] show ?thesis .
    qed
  qed
  then obtain rows where tx2: "transactions st2 = transactions ?st1 @ rows"
    and bal2: "\<And>a. balance_of st2 a - balance_of ?st1 a = credited rows a"
    by blast
  have b': "balance_of st' a = balance_of st2 a" for a
    by (simp add: balance_of_def ag' map_of_modify_where split: option.splits)
  have b1: "balance_of ?st1 a = balance_of st a" for a
    by (rule balance_of_frame) (rule pre)
  from tx' tx2 pre have "transactions st' = transactions st @ rows" by simp
  moreover from bal2 b' b1 have "\<forall>a. balance_of st' a - balance_of st a = credited rows a"
    by simp
  ultimately show ?thesis by blast
qed


lemma arena_refund:
  "refund_wager ''A'' 50 (arena_posted\<lparr>challenges := []\<rparr>) = Inr ((), arena)"
  by (simp add: arena_defs refund_wager_def sql_defs)

text \<open>
  Claim C3 as stated fails for the escrow: posting a challenge and accepting one take the
  wager out of the agent's balance and append nothing to \<^verbatim>\<open>transactions\<close>. In the arena A
  posts a challenge of 50 chips and B accepts it: each balance goes from 1000 to 950 and
  the transaction log is as empty after the two calls as it was before.
\<close>

theorem ledger_escrow_counterexample:
  "post_challenge ''c1'' ''A'' (Num 50) arena = (Inr ''c1'', arena_posted)
   \<and> balance_of arena ''A'' = 1000 \<and> balance_of arena_posted ''A'' = 950
   \<and> transactions arena = [] \<and> transactions arena_posted = []
   \<and> accept_challenge 0 ''m1'' ''B'' ''c1'' (Num 500) NaN arena_posted
        = (Inr match_m1, arena_accepted)
   \<and> balance_of arena_posted ''B'' = 1000 \<and> balance_of arena_accepted ''B'' = 950
   \<and> transactions arena_accepted = []"
  by (simp add: arena_post arena_accept)
     (simp add: arena_defs balance_of_def)

text \<open>
  Claim C3, amended: the cancellation of a challenge (\<^verbatim>\<open>cancel_challenge\<close>), the return of
  the wagers on a draw and the settlement of a win (both in \<^verbatim>\<open>resolve_match\<close>, on a match
  between two different agents) append their rows to \<^verbatim>\<open>transactions\<close> in the same call
  that changes the balances, and for every agent the amounts of the appended rows that
  credit the agent sum to the change of the agent's balance; a call that changes no
  balance appends no amount and one that appends no row changes no balance. The escrow
  at challenge post (\<^verbatim>\<open>escrow_wager\<close>), the escrow at accept (\<^verbatim>\<open>create_match\<close>) and the refund
  of a failed post (\<^verbatim>\<open>refund_wager\<close>) change the balance by the wager and leave
  \<^verbatim>\<open>transactions\<close> as it is.
\<close>

theorem ledger_transaction_rows:
  "(cancel_challenge p_challenge_id p_agent_id st = Inr (res, st')
      \<longrightarrow> (\<exists>rows. transactions st' = transactions st @ rows
             \<and> (\<forall>a. balance_of st' a - balance_of st a = credited rows a)))
   \<and> (resolve_match now mid p1 p2 f1 f2 s1 s2 st = Inr (row, st')
        \<and> map_of (matches st) mid = Some v \<and> agent1_id v \<noteq> agent2_id v
      \<longrightarrow> (\<exists>rows. transactions st' = transactions st @ rows
             \<and> (\<forall>a. balance_of st' a - balance_of st a = credited rows a)))
   \<and> (escrow_wager p_agent_id p_amount st = Inr (True, st')
        \<and> map_of (agents st) p_agent_id = Some r
      \<longrightarrow> transactions st' = transactions st
          \<and> balance_of st' p_agent_id = balance r - p_amount)
   \<and> (refund_wager p_agent_id p_amount st = Inr (u, st')
        \<and> map_of (agents st) p_agent_id = Some r
      \<longrightarrow> transactions st' = transactions st
          \<and> balance_of st' p_agent_id = balance r + p_amount)
   \<and> (create_match now new_id p_challenge_id p_accepter_id p_strategy_seconds
          p_commit_seconds st = Inr (row, st')
      \<longrightarrow> transactions st' = transactions st
          \<and> balance_of st' p_accepter_id = balance_of st p_accepter_id - wager_amount row)"
proof (intro conjI impI)
  assume "cancel_challenge p_challenge_id p_agent_id st = Inr (res, st')"
  then show "\<exists>rows. transactions st' = transactions st @ rows
             \<and> (\<forall>a. balance_of st' a - balance_of st a = credited rows a)"
    by (rule cancel_challenge_ledger)
next
  assume "resolve_match now mid p1 p2 f1 f2 s1 s2 st = Inr (row, st')
        \<and> map_of (matches st) mid = Some v \<and> agent1_id v \<noteq> agent2_id v"
  then have a: "resolve_match now mid p1 p2 f1 f2 s1 s2 st = Inr (row, st')"
    and b: "map_of (matches st) mid = Some v" and c: "agent1_id v \<noteq> agent2_id v"
    by simp_all
  from a b c show "\<exists>rows. transactions st' = transactions st @ rows
             \<and> (\<forall>a. balance_of st' a - balance_of st a = credited rows a)"
    by (rule resolve_match_ledger)
next
  assume h: "escrow_wager p_agent_id p_amount st = Inr (True, st')
        \<and> map_of (agents st) p_agent_id = Some r"
  show "transactions st' = transactions st"
    by (rule escrow_wager_transactions [OF h [THEN conjunct1]])
  show "balance_of st' p_agent_id = balance r - p_amount"
    by (rule escrow_wager_balance [OF h [THEN conjunct1] h [THEN conjunct2]])
next
  assume h: "refund_wager p_agent_id p_amount st = Inr (u, st')
        \<and> map_of (agents st) p_agent_id = Some r"
  show "transactions st' = transactions st"
    by (rule refund_wager_transactions [OF h [THEN conjunct1]])
  show "balance_of st' p_agent_id = balance r + p_amount"
    by (rule refund_wager_balance [OF h [THEN conjunct1] h [THEN conjunct2]])
next
  assume h: "create_match now new_id p_challenge_id p_accepter_id p_strategy_seconds
          p_commit_seconds st = Inr (row, st')"
  from create_match_ledger [OF h] show "transactions st' = transactions st"
    by simp
  from create_match_ledger [OF h]
  show "balance_of st' p_accepter_id = balance_of st p_accepter_id - wager_amount row"
    by simp
qed

theorem ledger_transaction_rows_witness:
  "cancel_challenge ''c1'' ''A'' arena_posted
     = Inr ((True, 50, ''Challenge cancelled.''), arena_cancelled)
   \<and> transactions arena_posted = []
   \<and> length (transactions arena_cancelled) = 1
   \<and> balance_of arena_cancelled ''A'' - balance_of arena_posted ''A''
       = credited (transactions arena_cancelled) ''A''
   \<and> resolve_match 150000000 ''m1'' (Some ''rock'') (Some ''scissors'') False False [] []
       arena_waiting = Inr (match_m1_resolved, arena_resolved)
   \<and> map_of (matches arena_waiting) ''m1'' = Some match_m1_waiting
   \<and> agent1_id match_m1_waiting \<noteq> agent2_id match_m1_waiting
   \<and> transactions arena_waiting = []
   \<and> length (transactions arena_resolved) = 1
   \<and> balance_of arena_resolved ''A'' - balance_of arena_waiting ''A''
       = credited (transactions arena_resolved) ''A''
   \<and> balance_of arena_resolved ''B'' - balance_of arena_waiting ''B''
       = credited (transactions arena_resolved) ''B''
   \<and> escrow_wager ''A'' 50 arena = Inr (True, arena_posted\<lparr>challenges := []\<rparr>)
   \<and> map_of (agents arena) ''A'' = Some (new_agent (Always ''rock''))
   \<and> transactions (arena_posted\<lparr>challenges := []\<rparr>) = transactions arena
   \<and> balance_of (arena_posted\<lparr>challenges := []\<rparr>) ''A''
       = balance (new_agent (Always ''rock'')) - 50
   \<and> refund_wager ''A'' 50 (arena_posted\<lparr>challenges := []\<rparr>) = Inr ((), arena)
   \<and> map_of (agents (arena_posted\<lparr>challenges := []\<rparr>)) ''A''
       = Some ((new_agent (Always ''rock''))\<lparr>balance := 950\<rparr>)
   \<and> transactions arena = transactions (arena_posted\<lparr>challenges := []\<rparr>)
   \<and> balance_of arena ''A'' = balance ((new_agent (Always ''rock''))\<lparr>balance := 950\<rparr>) + 50
   \<and> create_match 0 ''m1'' ''c1'' ''B'' 120 60 arena_posted = Inr (match_m1, arena_accepted)
   \<and> transactions arena_accepted = transactions arena_posted
   \<and> balance_of arena_accepted ''B'' = balance_of arena_posted ''B'' - wager_amount match_m1"
proof -
  have e1: "transactions arena_posted = []" and l1: "length (transactions arena_cancelled) = 1"
    and e2: "transactions arena_waiting = []" and l2: "length (transactions arena_resolved) = 1"
    by (simp_all add: arena_defs)
  have look: "map_of (matches arena_waiting) ''m1'' = Some match_m1_waiting"
    and ne: "agent1_id match_m1_waiting \<noteq> agent2_id match_m1_waiting"
    and a0: "map_of (agents arena) ''A'' = Some (new_agent (Always ''rock''))"
    and a1: "map_of (agents (arena_posted\<lparr>challenges := []\<rparr>)) ''A''
               = Some ((new_agent (Always ''rock''))\<lparr>balance := 950\<rparr>)"
    by (simp_all add: arena_defs)
  from ledger_transaction_rows [THEN conjunct1, THEN mp, OF arena_cancel]
  obtain rows1 where t1: "transactions arena_cancelled = transactions arena_posted @ rows1"
    and b1: "\<And>a. balance_of arena_cancelled a - balance_of arena_posted a = credited rows1 a"
    by blast
  from t1 e1 have r1: "rows1 = transactions arena_cancelled" by simp
  note c1 = b1 [of "''A''", unfolded r1]
  from ledger_transaction_rows
         [THEN conjunct2, THEN conjunct1, THEN mp, OF conjI [OF arena_resolve conjI [OF look ne]]]
  obtain rows2 where t2: "transactions arena_resolved = transactions arena_waiting @ rows2"
    and b2: "\<And>a. balance_of arena_resolved a - balance_of arena_waiting a = credited rows2 a"
    by blast
  from t2 e2 have r2: "rows2 = transactions arena_resolved" by simp
  note c2 = b2 [of "''A''", unfolded r2] b2 [of "''B''", unfolded r2]
  note c3 = ledger_transaction_rows
         [THEN conjunct2, THEN conjunct2, THEN conjunct1, THEN mp, OF conjI [OF arena_escrow a0]]
  note c4 = ledger_transaction_rows
         [THEN conjunct2, THEN conjunct2, THEN conjunct2, THEN conjunct1, THEN mp,
          OF conjI [OF arena_refund a1]]
  note c5 = ledger_transaction_rows
         [THEN conjunct2, THEN conjunct2, THEN conjunct2, THEN conjunct2, THEN mp,
          OF arena_create_match]
  from arena_cancel e1 l1 c1 arena_resolve look ne e2 l2 c2 arena_escrow a0 c3 arena_refund a1
    c4 arena_create_match c5
  show ?thesis by (intro conjI) (erule conjunct1 conjunct2 | assumption)+
qed

end
